theory Spec2Isabelle
  imports Complex_Main
begin

section \<open>Values, records and errors\<close>

text \<open>
  The traits of \<^verbatim>\<open>evennia/contrib/traits.py\<close> keep all their state in a dictionary
  \<^verbatim>\<open>_data\<close> from field names to Python values. The values modelled are \<^verbatim>\<open>None\<close>,
  numbers, strings and dictionaries. Python's \<^verbatim>\<open>int\<close> and \<^verbatim>\<open>float\<close> are one
  constructor holding an exact number: the code never tells them apart
  (\<^verbatim>\<open>type(value) in (int, float)\<close>). On integers Python computes exactly, as the
  model does. The rounding of floats is not modelled: a statement that rests on a law of
  arithmetic, such as \<open>(max - mod) + mod = max\<close>, is made for integers only.
\<close>

datatype pyval = VNone | VNum real | VStr string | VDict "(pyval \<times> pyval) list"

type_synonym data = "string \<rightharpoonup> pyval"

datatype trait_msg =
    MissesRequiredKeys string "string set"
  | DescsMalformed
  | TraitExists string
  | TraitTypeInvalid string
  | TraitClassNotFound pyval
  | TraitNotFound string
  | MandatoryKeyNotDeletable string
  | MaxNotSettable
  | MaxNotResettable

datatype error =
    TraitException trait_msg
  | KeyError string
  | AttributeError string
  | TypeError

datatype trait_kind = Generic | Static | Counter | Gauge

definition bindE :: "error + 'a \<Rightarrow> ('a \<Rightarrow> error + 'b) \<Rightarrow> error + 'b" where
  "bindE r f = (case r of Inl e \<Rightarrow> Inl e | Inr v \<Rightarrow> f v)"

text \<open>\<^verbatim>\<open>self._data[key]\<close> raises KeyError on a missing key; an attribute that is no
  property of the class goes through \<^verbatim>\<open>Trait.__getattr__\<close>, which turns the KeyError
  into an AttributeError.\<close>

definition getitem :: "data \<Rightarrow> string \<Rightarrow> error + pyval" where
  "getitem d k = (case d k of None \<Rightarrow> Inl (KeyError k) | Some v \<Rightarrow> Inr v)"

definition trait_getattr :: "data \<Rightarrow> string \<Rightarrow> error + pyval" where
  "trait_getattr d k = (case d k of None \<Rightarrow> Inl (AttributeError k) | Some v \<Rightarrow> Inr v)"

text \<open>\<^verbatim>\<open>type(value) in (int, float)\<close>\<close>

fun is_num :: "pyval \<Rightarrow> bool" where
  "is_num (VNum _) = True"
| "is_num _ = False"

text \<open>
  \<^verbatim>\<open>+\<close> adds two numbers and concatenates two strings. Subtraction, multiplication and
  ordering are modelled on numbers; any other operand is a TypeError. (Python also
  orders two strings and repeats a string an integer number of times; no field of a
  numeric trait is meant to hold a string.)
\<close>

fun py_add :: "pyval \<Rightarrow> pyval \<Rightarrow> error + pyval" where
  "py_add (VNum x) (VNum y) = Inr (VNum (x + y))"
| "py_add (VStr x) (VStr y) = Inr (VStr (x @ y))"
| "py_add _ _ = Inl TypeError"

fun py_sub :: "pyval \<Rightarrow> pyval \<Rightarrow> error + pyval" where
  "py_sub (VNum x) (VNum y) = Inr (VNum (x - y))"
| "py_sub _ _ = Inl TypeError"

fun py_mul :: "pyval \<Rightarrow> pyval \<Rightarrow> error + pyval" where
  "py_mul (VNum x) (VNum y) = Inr (VNum (x * y))"
| "py_mul _ _ = Inl TypeError"

fun py_lt :: "pyval \<Rightarrow> pyval \<Rightarrow> error + bool" where
  "py_lt (VNum x) (VNum y) = Inr (x < y)"
| "py_lt _ _ = Inl TypeError"

fun py_le :: "pyval \<Rightarrow> pyval \<Rightarrow> error + bool" where
  "py_le (VNum x) (VNum y) = Inr (x \<le> y)"
| "py_le _ _ = Inl TypeError"

definition py_gt :: "pyval \<Rightarrow> pyval \<Rightarrow> error + bool" where
  "py_gt a b = py_lt b a"

definition py_ge :: "pyval \<Rightarrow> pyval \<Rightarrow> error + bool" where
  "py_ge a b = py_le b a"

text \<open>The builtins \<^verbatim>\<open>min(a, b)\<close> and \<^verbatim>\<open>max(a, b)\<close> keep the first argument on a tie.\<close>

definition py_min :: "pyval \<Rightarrow> pyval \<Rightarrow> error + pyval" where
  "py_min a b = bindE (py_lt b a) (\<lambda>c. Inr (if c then b else a))"

definition py_max :: "pyval \<Rightarrow> pyval \<Rightarrow> error + pyval" where
  "py_max a b = bindE (py_gt b a) (\<lambda>c. Inr (if c then b else a))"

section \<open>CounterTrait and GaugeTrait\<close>

text \<open>
  The methods of CounterTrait take the kind of the trait: GaugeTrait inherits them and
  overrides the properties \<^verbatim>\<open>min\<close>, \<^verbatim>\<open>max\<close> and the method
  \<^verbatim>\<open>_enforce_boundaries\<close> they call. A method that raises only before it has written
  anything returns \<open>error + \<dots>\<close>; the others return the record next to the outcome.
  The parameter \<open>now\<close> is the reading of \<^verbatim>\<open>time()\<close> during the operation.
\<close>

definition get_base :: "data \<Rightarrow> error + pyval" where
  "get_base d = getitem d ''base''"

definition get_mod :: "data \<Rightarrow> error + pyval" where
  "get_mod d = getitem d ''mod''"

definition get_rate :: "data \<Rightarrow> error + pyval" where
  "get_rate d = trait_getattr d ''rate''"

definition get_min :: "trait_kind \<Rightarrow> data \<Rightarrow> error + pyval" where
  "get_min k d =
     (if k = Gauge
      then bindE (getitem d ''min'') (\<lambda>val. Inr (if val = VNone then VNum 0 else val))
      else getitem d ''min'')"

definition get_max :: "trait_kind \<Rightarrow> data \<Rightarrow> error + pyval" where
  "get_max k d =
     (if k = Gauge
      then bindE (get_base d) (\<lambda>b. bindE (get_mod d) (\<lambda>m. py_add b m))
      else getitem d ''max'')"

definition within_boundaries :: "trait_kind \<Rightarrow> data \<Rightarrow> pyval \<Rightarrow> error + bool" where
  "within_boundaries k d v =
     bindE (get_min k d) (\<lambda>mn.
     bindE (if mn \<noteq> VNone then py_le v mn else Inr False) (\<lambda>below.
     if below then Inr False
     else bindE (get_max k d) (\<lambda>mx.
          bindE (if mx \<noteq> VNone then py_ge v mx else Inr False) (\<lambda>above.
          Inr (\<not> above)))))"

definition enforce_boundaries :: "trait_kind \<Rightarrow> data \<Rightarrow> pyval \<Rightarrow> error + pyval" where
  "enforce_boundaries k d v =
     bindE (get_min k d) (\<lambda>mn.
     bindE (if mn \<noteq> VNone then py_le v mn else Inr False) (\<lambda>below.
     if below then get_min k d
     else if k = Gauge
     then bindE (get_mod d) (\<lambda>m. bindE (get_base d) (\<lambda>b.
          bindE (py_add m b) (\<lambda>top. py_min top v)))
     else bindE (get_max k d) (\<lambda>mx.
          bindE (if mx \<noteq> VNone then py_ge v mx else Inr False) (\<lambda>above.
          if above then get_max k d else Inr v))))"

definition passed_ratetarget :: "data \<Rightarrow> pyval \<Rightarrow> error + bool" where
  "passed_ratetarget d v =
     bindE (getitem d ''ratetarget'') (\<lambda>ratetarget.
     if ratetarget = VNone then Inr False
     else bindE (get_rate d) (\<lambda>rate.
          bindE (py_lt rate (VNum 0)) (\<lambda>down.
          bindE (if down then py_le v ratetarget else Inr False) (\<lambda>c.
          if c then Inr True
          else bindE (py_gt rate (VNum 0)) (\<lambda>up.
               if up then py_ge v ratetarget else Inr False)))))"

definition stop_timer :: "data \<Rightarrow> error + data" where
  "stop_timer d =
     bindE (get_rate d) (\<lambda>rate.
     if rate \<noteq> VNum 0
     then bindE (getitem d ''last_update'') (\<lambda>lu.
          Inr (if lu \<noteq> VNone then d(''last_update'' \<mapsto> VNone) else d))
     else Inr d)"

definition check_and_start_timer :: "trait_kind \<Rightarrow> real \<Rightarrow> data \<Rightarrow> pyval \<Rightarrow> error + data" where
  "check_and_start_timer k now d v =
     bindE (get_rate d) (\<lambda>rate.
     if rate \<noteq> VNum 0
     then bindE (getitem d ''last_update'') (\<lambda>lu.
          if lu = VNone
          then bindE (getitem d ''ratetarget'') (\<lambda>ratetarget.
               bindE (within_boundaries k d v) (\<lambda>w.
               if w
               then bindE (passed_ratetarget d v) (\<lambda>p.
                    Inr (if \<not> p then d(''last_update'' \<mapsto> VNum now) else d))
               else Inr d))
          else Inr d)
     else Inr d)"

text \<open>\<^verbatim>\<open>_update_current\<close>: CounterTrait adds and removes \<^verbatim>\<open>mod\<close> around the checks,
  GaugeTrait's override does not.\<close>

definition with_mod :: "trait_kind \<Rightarrow> data \<Rightarrow> pyval \<Rightarrow> error + pyval" where
  "with_mod k d c = (if k = Gauge then Inr c else bindE (get_mod d) (\<lambda>m. py_add c m))"

definition without_mod :: "trait_kind \<Rightarrow> data \<Rightarrow> pyval \<Rightarrow> error + pyval" where
  "without_mod k d v = (if k = Gauge then Inr v else bindE (get_mod d) (\<lambda>m. py_sub v m))"

definition update_current :: "trait_kind \<Rightarrow> real \<Rightarrow> data \<Rightarrow> pyval \<Rightarrow> error + pyval \<times> data" where
  "update_current k now d current =
     bindE (get_rate d) (\<lambda>rate.
     if rate \<noteq> VNum 0
     then bindE (getitem d ''last_update'') (\<lambda>lu.
          if lu \<noteq> VNone
          then bindE (py_sub (VNum now) lu) (\<lambda>tdiff.
               bindE (py_mul rate tdiff) (\<lambda>delta.
               bindE (py_add current delta) (\<lambda>cur.
               bindE (with_mod k d cur) (\<lambda>v.
               bindE (passed_ratetarget d v) (\<lambda>p.
               if p
               then bindE (getitem d ''ratetarget'') (\<lambda>ratetarget.
                    bindE (without_mod k d ratetarget) (\<lambda>c.
                    bindE (stop_timer d) (\<lambda>d'.
                    Inr (c, d'(''current'' \<mapsto> c)))))
               else bindE (within_boundaries k d v) (\<lambda>w.
                    if \<not> w
                    then bindE (enforce_boundaries k d v) (\<lambda>e.
                         bindE (without_mod k d e) (\<lambda>c.
                         bindE (stop_timer d) (\<lambda>d'.
                         Inr (c, d'(''current'' \<mapsto> c)))))
                    else Inr (cur, d(''last_update'' \<mapsto> VNum now, ''current'' \<mapsto> cur))))))))
          else Inr (current, d))
     else Inr (current, d))"

text \<open>The property \<^verbatim>\<open>current\<close>: \<^verbatim>\<open>self._data.get("current", default)\<close> evaluates its
  default first.\<close>

definition get_current :: "trait_kind \<Rightarrow> real \<Rightarrow> data \<Rightarrow> error + pyval \<times> data" where
  "get_current k now d =
     (if k = Gauge
      then bindE (get_base d) (\<lambda>b. bindE (get_mod d) (\<lambda>m. bindE (py_add b m) (\<lambda>full.
           bindE (enforce_boundaries k d (case d ''current'' of None \<Rightarrow> full | Some c \<Rightarrow> c))
             (update_current k now d))))
      else bindE (get_base d) (\<lambda>b.
           update_current k now d (case d ''current'' of None \<Rightarrow> b | Some c \<Rightarrow> c)))"

definition get_value :: "trait_kind \<Rightarrow> real \<Rightarrow> data \<Rightarrow> (error + pyval) \<times> data" where
  "get_value k now d =
     (case get_current k now d of
        Inl e \<Rightarrow> (Inl e, d)
      | Inr (c, d') \<Rightarrow>
          if k = Gauge then (Inr c, d')
          else (bindE (get_mod d') (\<lambda>m. bindE (py_add c m) (enforce_boundaries k d')), d'))"

text \<open>The setters and deleters of CounterTrait and of GaugeTrait. They compare first and
  write last, so an error leaves the record as it was.\<close>

definition set_current :: "trait_kind \<Rightarrow> real \<Rightarrow> data \<Rightarrow> pyval \<Rightarrow> error + data" where
  "set_current k now d v =
     (if is_num v
      then bindE (enforce_boundaries k d v) (\<lambda>e.
           bindE (check_and_start_timer k now d e) (\<lambda>d'.
           Inr (d'(''current'' \<mapsto> e))))
      else Inr d)"

definition del_current :: "trait_kind \<Rightarrow> data \<Rightarrow> error + data" where
  "del_current k d =
     (if k = Gauge
      then bindE (get_base d) (\<lambda>b. bindE (get_mod d) (\<lambda>m. bindE (py_add b m) (\<lambda>full.
           Inr (d(''current'' \<mapsto> full)))))
      else bindE (get_base d) (\<lambda>b. Inr (d(''current'' \<mapsto> b))))"

definition set_base :: "trait_kind \<Rightarrow> data \<Rightarrow> pyval \<Rightarrow> error + data" where
  "set_base k d v =
     (if k = Gauge
      then if is_num v
           then bindE (get_mod d) (\<lambda>m. bindE (py_add v m) (\<lambda>s.
                bindE (get_min k d) (\<lambda>mn. bindE (py_lt s mn) (\<lambda>low.
                bindE (if low then bindE (get_mod d) (\<lambda>m. py_sub mn m) else Inr v) (\<lambda>v1.
                Inr (d(''base'' \<mapsto> v1)))))))
           else Inr d
      else if v = VNone then Inr (d(''base'' \<mapsto> VNum 0))
      else if is_num v
      then bindE (get_min k d) (\<lambda>mn.
           bindE (if mn \<noteq> VNone
                  then bindE (get_mod d) (\<lambda>m. bindE (py_add v m) (\<lambda>s. py_lt s mn))
                  else Inr False) (\<lambda>low.
           bindE (if low then bindE (get_mod d) (\<lambda>m. py_sub mn m) else Inr v) (\<lambda>v1.
           bindE (get_max k d) (\<lambda>mx.
           bindE (if mx \<noteq> VNone
                  then bindE (get_mod d) (\<lambda>m. bindE (py_add v1 m) (\<lambda>s. py_gt s mx))
                  else Inr False) (\<lambda>high.
           bindE (if high then bindE (get_mod d) (\<lambda>m. py_sub mx m) else Inr v1) (\<lambda>v2.
           Inr (d(''base'' \<mapsto> v2))))))))
      else Inr d)"

definition set_mod :: "trait_kind \<Rightarrow> data \<Rightarrow> pyval \<Rightarrow> error + data" where
  "set_mod k d v =
     (if k = Static then Inr (if is_num v then d(''mod'' \<mapsto> v) else d)
      else if k = Gauge
      then if is_num v
           then bindE (get_base d) (\<lambda>b. bindE (py_add v b) (\<lambda>s.
                bindE (get_min k d) (\<lambda>mn. bindE (py_lt s mn) (\<lambda>low.
                bindE (if low then bindE (get_base d) (\<lambda>b. py_sub mn b) else Inr v) (\<lambda>v1.
                Inr (d(''mod'' \<mapsto> v1)))))))
           else Inr d
      else if v = VNone then Inr (d(''mod'' \<mapsto> VNum 0))
      else if is_num v
      then bindE (get_min k d) (\<lambda>mn.
           bindE (if mn \<noteq> VNone
                  then bindE (get_base d) (\<lambda>b. bindE (py_add v b) (\<lambda>s. py_lt s mn))
                  else Inr False) (\<lambda>low.
           bindE (if low then bindE (get_base d) (\<lambda>b. py_sub mn b) else Inr v) (\<lambda>v1.
           bindE (get_max k d) (\<lambda>mx.
           bindE (if mx \<noteq> VNone
                  then bindE (get_base d) (\<lambda>b. bindE (py_add v1 b) (\<lambda>s. py_gt s mx))
                  else Inr False) (\<lambda>high.
           bindE (if high then bindE (get_base d) (\<lambda>b. py_sub mx b) else Inr v1) (\<lambda>v2.
           Inr (d(''mod'' \<mapsto> v2))))))))
      else Inr d)"

definition set_min :: "trait_kind \<Rightarrow> data \<Rightarrow> pyval \<Rightarrow> error + data" where
  "set_min k d v =
     (if k = Gauge
      then if v = VNone then Inr (d(''min'' \<mapsto> VNum 0))
           else if is_num v
           then bindE (get_base d) (\<lambda>b. bindE (get_mod d) (\<lambda>m. bindE (py_add b m) (\<lambda>s.
                bindE (py_min v s) (\<lambda>v1. Inr (d(''min'' \<mapsto> v1))))))
           else Inr d
      else if v = VNone then Inr (d(''min'' \<mapsto> VNone))
      else if is_num v
      then bindE (get_max k d) (\<lambda>mx.
           bindE (if mx \<noteq> VNone then py_min mx v else Inr v) (\<lambda>v1.
           bindE (get_base d) (\<lambda>b. bindE (get_mod d) (\<lambda>m. bindE (py_add b m) (\<lambda>s.
           bindE (py_min v1 s) (\<lambda>v2. Inr (d(''min'' \<mapsto> v2))))))))
      else Inr d)"

definition set_max :: "trait_kind \<Rightarrow> data \<Rightarrow> pyval \<Rightarrow> error + data" where
  "set_max k d v =
     (if k = Gauge then Inl (TraitException MaxNotSettable)
      else if v = VNone then Inr (d(''max'' \<mapsto> VNone))
      else if is_num v
      then bindE (get_min k d) (\<lambda>mn.
           bindE (if mn \<noteq> VNone then py_max mn v else Inr v) (\<lambda>v1.
           bindE (get_base d) (\<lambda>b. bindE (get_mod d) (\<lambda>m. bindE (py_add b m) (\<lambda>s.
           bindE (py_max v1 s) (\<lambda>v2. Inr (d(''max'' \<mapsto> v2))))))))
      else Inr d)"

text \<open>The setter of \<^verbatim>\<open>ratetarget\<close> writes the clamped target and then reads
  \<^verbatim>\<open>self.value\<close>, which may itself write.\<close>

definition set_ratetarget :: "trait_kind \<Rightarrow> real \<Rightarrow> data \<Rightarrow> pyval \<Rightarrow> (error + unit) \<times> data" where
  "set_ratetarget k now d v =
     (case enforce_boundaries k d v of
        Inl e \<Rightarrow> (Inl e, d)
      | Inr rt \<Rightarrow>
          (case get_value k now (d(''ratetarget'' \<mapsto> rt)) of
             (Inl e, d2) \<Rightarrow> (Inl e, d2)
           | (Inr val, d2) \<Rightarrow>
               (case check_and_start_timer k now d2 val of
                  Inl e \<Rightarrow> (Inl e, d2)
                | Inr d3 \<Rightarrow> (Inr (), d3))))"

section \<open>StaticTrait and the base Trait\<close>

text \<open>StaticTrait defines the properties \<^verbatim>\<open>mod\<close> and \<^verbatim>\<open>value\<close> only; its
  \<^verbatim>\<open>base\<close> is read through \<^verbatim>\<open>__getattr__\<close>.\<close>

definition static_value :: "data \<Rightarrow> error + pyval" where
  "static_value d = bindE (trait_getattr d ''base'') (\<lambda>b. bindE (get_mod d) (\<lambda>m. py_add b m))"

section \<open>Trait classes, attribute writes and deletes\<close>

text \<open>A trait class as the handler and \<^verbatim>\<open>Trait\<close> use it: its \<^verbatim>\<open>trait_type\<close>, its
  \<^verbatim>\<open>default_keys\<close> (a default, or the marker \<^verbatim>\<open>MandatoryTraitKey\<close>), the flag
  \<^verbatim>\<open>allow_extra_properties\<close>, and which of the four implementations its methods are.\<close>

datatype default_value = MandatoryTraitKey | Default pyval

record trait_class =
  kind :: trait_kind
  trait_type :: string
  default_keys :: "(string \<times> default_value) list"
  allow_extra_properties :: bool

definition Trait :: trait_class where
  "Trait = \<lparr>kind = Generic, trait_type = ''trait'',
     default_keys = [(''value'', Default VNone)], allow_extra_properties = True\<rparr>"

definition StaticTrait :: trait_class where
  "StaticTrait = \<lparr>kind = Static, trait_type = ''static'',
     default_keys = [(''base'', Default (VNum 0)), (''mod'', Default (VNum 0))],
     allow_extra_properties = True\<rparr>"

definition CounterTrait :: trait_class where
  "CounterTrait = \<lparr>kind = Counter, trait_type = ''counter'',
     default_keys = [(''base'', Default (VNum 0)), (''mod'', Default (VNum 0)),
       (''min'', Default VNone), (''max'', Default VNone), (''descs'', Default VNone),
       (''rate'', Default (VNum 0)), (''ratetarget'', Default VNone)],
     allow_extra_properties = True\<rparr>"

definition GaugeTrait :: trait_class where
  "GaugeTrait = \<lparr>kind = Gauge, trait_type = ''gauge'',
     default_keys = [(''base'', Default (VNum 0)), (''mod'', Default (VNum 0)),
       (''min'', Default (VNum 0)), (''descs'', Default VNone),
       (''rate'', Default (VNum 0)), (''ratetarget'', Default VNone)],
     allow_extra_properties = True\<rparr>"

text \<open>The names that are a \<^verbatim>\<open>property\<close> of each class, and those of them that have a
  setter or a deleter.\<close>

definition properties :: "trait_kind \<Rightarrow> string list" where
  "properties k =
     (case k of
        Generic \<Rightarrow> [''name'', ''key'', ''value'']
      | Static \<Rightarrow> [''name'', ''key'', ''value'', ''mod'']
      | _ \<Rightarrow> [''name'', ''key'', ''value'', ''base'', ''mod'', ''min'', ''max'', ''current'',
               ''ratetarget''])"

definition property_fset :: "trait_kind \<Rightarrow> real \<Rightarrow> string \<Rightarrow> (data \<Rightarrow> pyval \<Rightarrow> (error + unit) \<times> data) option" where
  "property_fset k now key =
     (let done = (\<lambda>d r. case r of Inl e \<Rightarrow> (Inl e, d) | Inr d' \<Rightarrow> (Inr (), d')) in
      if k = Generic
      then (if key = ''value'' then Some (\<lambda>d v. (Inr (), d(''value'' \<mapsto> v))) else None)
      else if k = Static
      then (if key = ''mod'' then Some (\<lambda>d v. done d (set_mod k d v)) else None)
      else if key = ''base'' then Some (\<lambda>d v. done d (set_base k d v))
      else if key = ''mod'' then Some (\<lambda>d v. done d (set_mod k d v))
      else if key = ''min'' then Some (\<lambda>d v. done d (set_min k d v))
      else if key = ''max'' then Some (\<lambda>d v. done d (set_max k d v))
      else if key = ''current'' then Some (\<lambda>d v. done d (set_current k now d v))
      else if key = ''ratetarget'' then Some (set_ratetarget k now)
      else None)"

definition property_fdel :: "trait_kind \<Rightarrow> string \<Rightarrow> (data \<Rightarrow> error + data) option" where
  "property_fdel k key =
     (if k = Counter \<or> k = Gauge
      then (if key = ''current'' then Some (del_current k)
            else if key = ''max'' \<and> k = Gauge then Some (\<lambda>d. Inl (TraitException MaxNotResettable))
            else None)
      else None)"

text \<open>\<^verbatim>\<open>Trait.__setattr__\<close>. A property without a setter swallows the write; a name that
  is no property is stored in the record when the class allows extra properties. Writing
  \<^verbatim>\<open>_data\<close> rebinds the wrapper and leaves the record alone.\<close>

definition trait_setattr :: "trait_class \<Rightarrow> real \<Rightarrow> string \<Rightarrow> pyval \<Rightarrow> data \<Rightarrow> (error + unit) \<times> data" where
  "trait_setattr cls now key v d =
     (if key \<in> set (properties (kind cls))
      then (case property_fset (kind cls) now key of
              Some fset \<Rightarrow> fset d v
            | None \<Rightarrow> (Inr (), d))
      else if key = ''_data'' then (Inr (), d)
      else if allow_extra_properties cls then (Inr (), d(key \<mapsto> v))
      else (Inl (AttributeError key), d))"

text \<open>\<^verbatim>\<open>Trait.__delattr__\<close>. \<^verbatim>\<open>object.__delattr__\<close> runs the deleter of a property and
  raises AttributeError for any other name of the record.\<close>

definition object_delattr :: "trait_kind \<Rightarrow> string \<Rightarrow> data \<Rightarrow> error + data" where
  "object_delattr k key d =
     (case property_fdel k key of
        Some fdel \<Rightarrow> fdel d
      | None \<Rightarrow> if key = ''_data'' then Inr d else Inl (AttributeError key))"

definition trait_delattr :: "trait_class \<Rightarrow> string \<Rightarrow> data \<Rightarrow> (error + unit) \<times> data" where
  "trait_delattr cls key d =
     (case map_of (default_keys cls) key of
        Some MandatoryTraitKey \<Rightarrow> (Inl (TraitException (MandatoryKeyNotDeletable key)), d)
      | Some (Default v) \<Rightarrow> (Inr (), d(key \<mapsto> v))
      | None \<Rightarrow>
          (case object_delattr (kind cls) key d of
             Inr d' \<Rightarrow> (Inr (), d')
           | Inl (AttributeError _) \<Rightarrow> (Inr (), if d key \<noteq> None then d(key := None) else d)
           | Inl e \<Rightarrow> (Inl e, d)))"

definition reset :: "trait_class \<Rightarrow> data \<Rightarrow> (error + unit) \<times> data" where
  "reset cls d = trait_delattr cls ''current'' d"

text \<open>\<^verbatim>\<open>trait.current -= amount\<close>: a read of the property, the subtraction, a write.\<close>

definition isub_current :: "trait_class \<Rightarrow> real \<Rightarrow> pyval \<Rightarrow> data \<Rightarrow> (error + unit) \<times> data" where
  "isub_current cls now amount d =
     (case get_current (kind cls) now d of
        Inl e \<Rightarrow> (Inl e, d)
      | Inr (c, d') \<Rightarrow>
          (case py_sub c amount of
             Inl e \<Rightarrow> (Inl e, d')
           | Inr v \<Rightarrow> trait_setattr cls now ''current'' v d'))"

section \<open>Validation\<close>

text \<open>\<^verbatim>\<open>Trait.validate_input\<close> works on the dictionary it is given and returns it. It
  raises before it writes. The names in the error are a set: the code collects them from
  a Python set, in no fixed order.\<close>

definition validate_input :: "trait_class \<Rightarrow> data \<Rightarrow> error + data" where
  "validate_input cls d =
     (let unsets = filter (\<lambda>key. d key = None) [''name'', ''trait_type''] in
      if unsets \<noteq> []
      then Inl (TraitException (MissesRequiredKeys (trait_type cls) (set unsets)))
      else
        let unset_defaults = filter (\<lambda>(key, dflt). d key = None) (default_keys cls);
            mandatory = map fst (filter (\<lambda>(key, dflt). dflt = MandatoryTraitKey) unset_defaults)
        in if mandatory \<noteq> []
           then Inl (TraitException (MissesRequiredKeys (trait_type cls) (set mandatory)))
           else
             let d1 = fold (\<lambda>(key, dflt) acc.
                        case dflt of Default v \<Rightarrow> acc(key \<mapsto> v) | MandatoryTraitKey \<Rightarrow> acc)
                        unset_defaults d
             in Inr (if allow_extra_properties cls then d1
                     else (\<lambda>key. if key \<in> set (map fst (default_keys cls))
                                     \<or> key = ''name'' \<or> key = ''trait_type''
                                  then d1 key else None)))"

fun is_str :: "pyval \<Rightarrow> bool" where
  "is_str (VStr _) = True"
| "is_str _ = False"

definition descs_malformed :: "pyval \<Rightarrow> bool" where
  "descs_malformed descs =
     (case descs of
        VDict items \<Rightarrow> list_ex (\<lambda>(key, val). \<not> (is_num key \<and> is_str val)) items
      | _ \<Rightarrow> False)"

text \<open>\<^verbatim>\<open>CounterTrait.validate_input\<close>, which GaugeTrait inherits. The second component
  is the dictionary as the call leaves it, also when it raises.\<close>

definition counter_validate_input :: "trait_class \<Rightarrow> real \<Rightarrow> data \<Rightarrow> (error + unit) \<times> data" where
  "counter_validate_input cls now d =
     (case validate_input cls d of
        Inl e \<Rightarrow> (Inl e, d)
      | Inr d1 \<Rightarrow>
          (case getitem d1 ''descs'' of
             Inl e \<Rightarrow> (Inl e, d1)
           | Inr descs \<Rightarrow>
               if descs_malformed descs then (Inl (TraitException DescsMalformed), d1)
               else (case getitem d1 ''rate'' of
                       Inl e \<Rightarrow> (Inl e, d1)
                     | Inr rate \<Rightarrow>
                         (Inr (), d1(''last_update'' \<mapsto>
                                      (if rate \<noteq> VNum 0 then VNum now else VNone))))))"

definition cls_validate_input :: "trait_class \<Rightarrow> real \<Rightarrow> data \<Rightarrow> (error + unit) \<times> data" where
  "cls_validate_input cls now d =
     (if kind cls = Counter \<or> kind cls = Gauge then counter_validate_input cls now d
      else (case validate_input cls d of Inl e \<Rightarrow> (Inl e, d) | Inr d1 \<Rightarrow> (Inr (), d1)))"

section \<open>TraitHandler\<close>

text \<open>The handler holds the stored records by key and a cache of the wrappers it has
  built; a wrapper is its class together with the record of its key. The registry
  \<^verbatim>\<open>_TRAIT_CLASSES\<close> is a parameter: settings may add classes to the four defaults.\<close>

record handler =
  trait_data :: "string \<rightharpoonup> data"
  cache :: "string \<rightharpoonup> trait_class"

definition trait_classes :: "string \<rightharpoonup> trait_class" where
  "trait_classes =
     [''trait'' \<mapsto> Trait, ''static'' \<mapsto> StaticTrait, ''counter'' \<mapsto> CounterTrait,
      ''gauge'' \<mapsto> GaugeTrait]"

text \<open>\<^verbatim>\<open>str.title()\<close> on ASCII letters: a letter after a letter is lowered, any other
  letter is raised.\<close>

definition is_lower :: "char \<Rightarrow> bool" where
  "is_lower c = (97 \<le> (of_char c :: nat) \<and> (of_char c :: nat) \<le> 122)"

definition is_upper :: "char \<Rightarrow> bool" where
  "is_upper c = (65 \<le> (of_char c :: nat) \<and> (of_char c :: nat) \<le> 90)"

fun title_from :: "bool \<Rightarrow> string \<Rightarrow> string" where
  "title_from after_letter [] = []"
| "title_from after_letter (c # cs) =
     (if is_lower c
      then (if after_letter then c else char_of (of_char c - (32::nat))) # title_from True cs
      else if is_upper c
      then (if after_letter then char_of (of_char c + (32::nat)) else c) # title_from True cs
      else c # title_from False cs)"

definition title :: "string \<Rightarrow> string" where
  "title s = title_from False s"

definition remove :: "handler \<Rightarrow> string \<Rightarrow> error + handler" where
  "remove h trait_key =
     (if trait_data h trait_key = None then Inl (TraitException (TraitNotFound trait_key))
      else Inr (h\<lparr>cache := (cache h)(trait_key := None),
                  trait_data := (trait_data h)(trait_key := None)\<rparr>))"

definition add :: "(string \<rightharpoonup> trait_class) \<Rightarrow> real \<Rightarrow> handler \<Rightarrow> string \<Rightarrow> string option \<Rightarrow> string \<Rightarrow> bool \<Rightarrow> data \<Rightarrow> (error + unit) \<times> handler" where
  "add registry now h trait_key name ttype force trait_properties =
     (case (if trait_data h trait_key \<noteq> None
            then (if force then remove h trait_key
                  else Inl (TraitException (TraitExists trait_key)))
            else Inr h) of
        Inl e \<Rightarrow> (Inl e, h)
      | Inr h1 \<Rightarrow>
          (case registry ttype of
             None \<Rightarrow> (Inl (TraitException (TraitTypeInvalid ttype)), h1)
           | Some trait_cls \<Rightarrow>
               (case cls_validate_input trait_cls now
                       (trait_properties(
                          ''name'' \<mapsto> VStr (case name of None \<Rightarrow> title trait_key
                                              | Some n \<Rightarrow> if n = [] then title trait_key else n),
                          ''trait_type'' \<mapsto> VStr ttype)) of
                  (Inl e, _) \<Rightarrow> (Inl e, h1)
                | (Inr _, validated) \<Rightarrow>
                    (Inr (), h1\<lparr>trait_data := (trait_data h1)(trait_key \<mapsto> validated)\<rparr>))))"

text \<open>\<^verbatim>\<open>TraitHandler.get\<close>: a cache miss builds the wrapper, whose constructor validates
  the stored record in place.\<close>

definition get :: "(string \<rightharpoonup> trait_class) \<Rightarrow> real \<Rightarrow> handler \<Rightarrow> string \<Rightarrow> (error + trait_class option) \<times> handler" where
  "get registry now h trait_key =
     (case cache h trait_key of
        Some trait_cls \<Rightarrow> (Inr (Some trait_cls), h)
      | None \<Rightarrow>
          (case trait_data h trait_key of
             None \<Rightarrow> (Inr None, h)
           | Some stored \<Rightarrow>
               (case getitem stored ''trait_type'' of
                  Inl e \<Rightarrow> (Inl e, h)
                | Inr ttype \<Rightarrow>
                    (case (case ttype of VStr s \<Rightarrow> registry s | _ \<Rightarrow> None) of
                       None \<Rightarrow> (Inl (TraitException (TraitClassNotFound ttype)), h)
                     | Some trait_cls \<Rightarrow>
                         (case cls_validate_input trait_cls now stored of
                            (Inl e, stored') \<Rightarrow>
                              (Inl e, h\<lparr>trait_data := (trait_data h)(trait_key \<mapsto> stored')\<rparr>)
                          | (Inr _, stored') \<Rightarrow>
                              (Inr (Some trait_cls),
                               h\<lparr>trait_data := (trait_data h)(trait_key \<mapsto> stored'),
                                 cache := (cache h)(trait_key \<mapsto> trait_cls)\<rparr>))))))"

section \<open>Records with numeric fields\<close>

text \<open>
  The theorems below are about records whose fields hold what the classes mean them to
  hold: numbers in \<^verbatim>\<open>base\<close>, \<^verbatim>\<open>mod\<close> and \<^verbatim>\<open>rate\<close>, a number or \<^verbatim>\<open>None\<close> in
  \<^verbatim>\<open>min\<close>, \<^verbatim>\<open>max\<close>, \<^verbatim>\<open>ratetarget\<close> and \<^verbatim>\<open>last_update\<close>. \<open>fields k d \<dots>\<close> names
  these contents. A gauge does not read the key \<^verbatim>\<open>max\<close>.
\<close>

fun onum :: "real option \<Rightarrow> pyval" where
  "onum None = VNone"
| "onum (Some x) = VNum x"

definition fields :: "trait_kind \<Rightarrow> data \<Rightarrow> real \<Rightarrow> real \<Rightarrow> real option \<Rightarrow> real option \<Rightarrow> real \<Rightarrow> real option \<Rightarrow> real option \<Rightarrow> bool" where
  "fields k d b m mn mx r rt lu \<longleftrightarrow>
     (k = Counter \<or> k = Gauge) \<and>
     d ''base'' = Some (VNum b) \<and> d ''mod'' = Some (VNum m) \<and> d ''min'' = Some (onum mn) \<and>
     (k = Gauge \<or> d ''max'' = Some (onum mx)) \<and>
     d ''rate'' = Some (VNum r) \<and> d ''ratetarget'' = Some (onum rt) \<and>
     d ''last_update'' = Some (onum lu)"

text \<open>The bounds a trait of kind \<open>k\<close> reads through its properties \<^verbatim>\<open>min\<close> and
  \<^verbatim>\<open>max\<close>, and the outcome of the boundary and rate-target tests on numbers.\<close>

definition lower :: "trait_kind \<Rightarrow> real option \<Rightarrow> real option" where
  "lower k mn = (if k = Gauge then Some (case mn of None \<Rightarrow> 0 | Some lo \<Rightarrow> lo) else mn)"

definition upper :: "trait_kind \<Rightarrow> real \<Rightarrow> real \<Rightarrow> real option \<Rightarrow> real option" where
  "upper k b m mx = (if k = Gauge then Some (b + m) else mx)"

definition at_or_below :: "real option \<Rightarrow> real \<Rightarrow> bool" where
  "at_or_below lo v = (case lo of None \<Rightarrow> False | Some l \<Rightarrow> v \<le> l)"

definition at_or_above :: "real option \<Rightarrow> real \<Rightarrow> bool" where
  "at_or_above hi v = (case hi of None \<Rightarrow> False | Some h \<Rightarrow> h \<le> v)"

definition clamp :: "real option \<Rightarrow> real option \<Rightarrow> real \<Rightarrow> real" where
  "clamp lo hi v = (if at_or_below lo v then the lo else if at_or_above hi v then the hi else v)"

definition reached :: "real \<Rightarrow> real option \<Rightarrow> real \<Rightarrow> bool" where
  "reached r rt v =
     (case rt of None \<Rightarrow> False | Some t \<Rightarrow> (r < 0 \<and> v \<le> t) \<or> (0 < r \<and> t \<le> v))"

definition mod_part :: "trait_kind \<Rightarrow> real \<Rightarrow> real" where
  "mod_part k m = (if k = Gauge then 0 else m)"

definition start_value :: "trait_kind \<Rightarrow> real \<Rightarrow> real \<Rightarrow> real option \<Rightarrow> real option \<Rightarrow> real option \<Rightarrow> real" where
  "start_value k b m mn mx cur =
     (if k = Gauge
      then clamp (lower k mn) (upper k b m mx) (case cur of None \<Rightarrow> b + m | Some c \<Rightarrow> c)
      else (case cur of None \<Rightarrow> b | Some c \<Rightarrow> c))"

text \<open>The two inequalities of the data model, on a record that stores both bounds.\<close>

definition bounds_hold :: "data \<Rightarrow> bool" where
  "bounds_hold d =
     (case (d ''min'', d ''max'', d ''base'', d ''mod'') of
        (Some (VNum mn), Some (VNum mx), Some (VNum b), Some (VNum m)) \<Rightarrow>
          mn \<le> mx \<and> mn \<le> b + m \<and> b + m \<le> mx
      | _ \<Rightarrow> True)"

definition current_plus_mod_within :: "data \<Rightarrow> bool" where
  "current_plus_mod_within d =
     (case (d ''min'', d ''max'', d ''current'', d ''mod'') of
        (Some (VNum mn), Some (VNum mx), Some (VNum c), Some (VNum m)) \<Rightarrow>
          mn \<le> c + m \<and> c + m \<le> mx
      | _ \<Rightarrow> True)"

section \<open>Example records\<close>

text \<open>The counter of the module documentation, \<^verbatim>\<open>add("hunting", "Hunting Skill",
  trait_type="counter", base=10, mod=1, min=0, max=100)\<close>: \<open>skill\<close> as the handler stores
  it; \<open>debuffed\<close> after \<^verbatim>\<open>ratetarget = 71\<close> and with \<^verbatim>\<open>current\<close> at 40, so that
  \<^verbatim>\<open>value\<close> is 41; \<open>hunting t0\<close> with \<^verbatim>\<open>current = 41\<close>, \<^verbatim>\<open>rate = 1\<close> and its timer
  started at \<open>t0\<close>.\<close>

definition skill :: data where
  "skill =
     [''name'' \<mapsto> VStr ''Hunting Skill'', ''trait_type'' \<mapsto> VStr ''counter'',
      ''base'' \<mapsto> VNum 10, ''mod'' \<mapsto> VNum 1, ''min'' \<mapsto> VNum 0, ''max'' \<mapsto> VNum 100,
      ''descs'' \<mapsto> VNone, ''rate'' \<mapsto> VNum 0, ''ratetarget'' \<mapsto> VNone,
      ''last_update'' \<mapsto> VNone]"

definition debuffed :: data where
  "debuffed =
     [''name'' \<mapsto> VStr ''Hunting Skill'', ''trait_type'' \<mapsto> VStr ''counter'',
      ''base'' \<mapsto> VNum 10, ''mod'' \<mapsto> VNum 1, ''min'' \<mapsto> VNum 0, ''max'' \<mapsto> VNum 100,
      ''descs'' \<mapsto> VNone, ''rate'' \<mapsto> VNum 0, ''ratetarget'' \<mapsto> VNum 71,
      ''last_update'' \<mapsto> VNone, ''current'' \<mapsto> VNum 40]"

definition hunting :: "real \<Rightarrow> data" where
  "hunting t0 =
     [''name'' \<mapsto> VStr ''Hunting Skill'', ''trait_type'' \<mapsto> VStr ''counter'',
      ''base'' \<mapsto> VNum 10, ''mod'' \<mapsto> VNum 1, ''min'' \<mapsto> VNum 0, ''max'' \<mapsto> VNum 100,
      ''descs'' \<mapsto> VNone, ''rate'' \<mapsto> VNum 1, ''ratetarget'' \<mapsto> VNum 71,
      ''last_update'' \<mapsto> VNum t0, ''current'' \<mapsto> VNum 41]"

text \<open>A counter whose keyword arguments put \<^verbatim>\<open>min\<close> above \<^verbatim>\<open>max\<close> and above
  \<^verbatim>\<open>base\<close>.\<close>

definition inverted_kwargs :: data where
  "inverted_kwargs = [''base'' \<mapsto> VNum 10, ''min'' \<mapsto> VNum 20, ''max'' \<mapsto> VNum 5]"

definition inverted :: data where
  "inverted =
     [''name'' \<mapsto> VStr ''Skill'', ''trait_type'' \<mapsto> VStr ''counter'',
      ''base'' \<mapsto> VNum 10, ''mod'' \<mapsto> VNum 0, ''min'' \<mapsto> VNum 20, ''max'' \<mapsto> VNum 5,
      ''descs'' \<mapsto> VNone, ''rate'' \<mapsto> VNum 0, ''ratetarget'' \<mapsto> VNone,
      ''last_update'' \<mapsto> VNone]"

text \<open>A counter with base 10 on the bounds 5 and 100, and the counter
  \<^verbatim>\<open>add("skill", "Skill", trait_type="counter", max=100, ratetarget=150)\<close> as the
  handler stores it.\<close>

definition floored :: data where
  "floored =
     [''name'' \<mapsto> VStr ''Skill'', ''trait_type'' \<mapsto> VStr ''counter'',
      ''base'' \<mapsto> VNum 10, ''mod'' \<mapsto> VNum 0, ''min'' \<mapsto> VNum 5, ''max'' \<mapsto> VNum 100,
      ''descs'' \<mapsto> VNone, ''rate'' \<mapsto> VNum 0, ''ratetarget'' \<mapsto> VNone,
      ''last_update'' \<mapsto> VNone]"

definition eager_kwargs :: data where
  "eager_kwargs = [''max'' \<mapsto> VNum 100, ''ratetarget'' \<mapsto> VNum 150]"

definition eager :: data where
  "eager =
     [''name'' \<mapsto> VStr ''Skill'', ''trait_type'' \<mapsto> VStr ''counter'',
      ''base'' \<mapsto> VNum 0, ''mod'' \<mapsto> VNum 0, ''min'' \<mapsto> VNone, ''max'' \<mapsto> VNum 100,
      ''descs'' \<mapsto> VNone, ''rate'' \<mapsto> VNum 0, ''ratetarget'' \<mapsto> VNum 150,
      ''last_update'' \<mapsto> VNone]"

text \<open>The gauges \<^verbatim>\<open>add("hp", "Health", trait_type="gauge", base=-5)\<close> and
  \<^verbatim>\<open>add("hp", "Health", trait_type="gauge", base=100, rate=-1)\<close>, added at time 0, as
  the handler stores them.\<close>

definition drained :: data where
  "drained =
     [''name'' \<mapsto> VStr ''Health'', ''trait_type'' \<mapsto> VStr ''gauge'',
      ''base'' \<mapsto> VNum (- 5), ''mod'' \<mapsto> VNum 0, ''min'' \<mapsto> VNum 0,
      ''descs'' \<mapsto> VNone, ''rate'' \<mapsto> VNum 0, ''ratetarget'' \<mapsto> VNone,
      ''last_update'' \<mapsto> VNone]"

definition leaking :: data where
  "leaking =
     [''name'' \<mapsto> VStr ''Health'', ''trait_type'' \<mapsto> VStr ''gauge'',
      ''base'' \<mapsto> VNum 100, ''mod'' \<mapsto> VNum 0, ''min'' \<mapsto> VNum 0,
      ''descs'' \<mapsto> VNone, ''rate'' \<mapsto> VNum (- 1), ''ratetarget'' \<mapsto> VNone,
      ''last_update'' \<mapsto> VNum 0]"

text \<open>The gauge \<^verbatim>\<open>add("hp", "Health", trait_type="gauge", base=100)\<close> as the handler
  stores it, and a gauge added with a rate and a rate target above its maximum.\<close>

definition hp :: data where
  "hp =
     [''name'' \<mapsto> VStr ''Health'', ''trait_type'' \<mapsto> VStr ''gauge'',
      ''base'' \<mapsto> VNum 100, ''mod'' \<mapsto> VNum 0, ''min'' \<mapsto> VNum 0,
      ''descs'' \<mapsto> VNone, ''rate'' \<mapsto> VNum 0, ''ratetarget'' \<mapsto> VNone,
      ''last_update'' \<mapsto> VNone]"

definition regen_kwargs :: data where
  "regen_kwargs =
     [''base'' \<mapsto> VNum 100, ''rate'' \<mapsto> VNum 1, ''ratetarget'' \<mapsto> VNum 150,
      ''current'' \<mapsto> VNum 50]"

definition regen_hp :: data where
  "regen_hp =
     [''name'' \<mapsto> VStr ''Health'', ''trait_type'' \<mapsto> VStr ''gauge'',
      ''base'' \<mapsto> VNum 100, ''mod'' \<mapsto> VNum 0, ''min'' \<mapsto> VNum 0,
      ''descs'' \<mapsto> VNone, ''rate'' \<mapsto> VNum 1, ''ratetarget'' \<mapsto> VNum 150,
      ''last_update'' \<mapsto> VNum 0, ''current'' \<mapsto> VNum 50]"

text \<open>The static trait \<^verbatim>\<open>add("str", "Strength", trait_type="static", base=10, mod=2)\<close>.\<close>

definition strength :: data where
  "strength =
     [''name'' \<mapsto> VStr ''Strength'', ''trait_type'' \<mapsto> VStr ''static'',
      ''base'' \<mapsto> VNum 10, ''mod'' \<mapsto> VNum 2]"

text \<open>A class a game registers through \<^verbatim>\<open>TRAIT_CLASS_PATHS\<close>: a subclass of
  \<^verbatim>\<open>Trait\<close> with two mandatory keys.\<close>

definition QuestTrait :: trait_class where
  "QuestTrait = \<lparr>kind = Generic, trait_type = ''quest'',
     default_keys = [(''giver'', MandatoryTraitKey), (''goal'', MandatoryTraitKey),
       (''value'', Default VNone)],
     allow_extra_properties = True\<rparr>"

definition no_traits :: handler where
  "no_traits = \<lparr>trait_data = Map.empty, cache = Map.empty\<rparr>"

definition one_trait :: handler where
  "one_trait = \<lparr>trait_data = [''hp'' \<mapsto> hp], cache = [''hp'' \<mapsto> GaugeTrait]\<rparr>"

section \<open>Unfolding the model\<close>

lemmas op_defs = bindE_def getitem_def trait_getattr_def py_gt_def py_ge_def py_min_def py_max_def

lemmas counter_defs = get_base_def get_mod_def get_rate_def get_min_def get_max_def
  within_boundaries_def enforce_boundaries_def passed_ratetarget_def stop_timer_def
  check_and_start_timer_def with_mod_def without_mod_def update_current_def get_current_def
  get_value_def

lemmas setter_defs = set_current_def del_current_def set_base_def set_mod_def set_min_def
  set_max_def set_ratetarget_def

lemmas attr_defs = properties_def property_fset_def property_fdel_def trait_setattr_def
  object_delattr_def trait_delattr_def reset_def isub_current_def

lemmas class_defs = Trait_def StaticTrait_def CounterTrait_def GaugeTrait_def trait_classes_def

lemmas handler_defs = add_def remove_def get_def cls_validate_input_def
  counter_validate_input_def validate_input_def descs_malformed_def

lemmas bound_defs = lower_def upper_def at_or_below_def at_or_above_def clamp_def reached_def

section \<open>The methods on records with numeric fields\<close>

text \<open>On such a record no method raises, and each returns what the source computes
  on numbers.\<close>

lemma onum_eq_VNone [simp]: "onum x = VNone \<longleftrightarrow> x = None"
  by (cases x) simp_all

lemma fields_last_update:
  "fields k d b m mn mx r rt lu \<Longrightarrow> fields k (d(''last_update'' \<mapsto> onum lu')) b m mn mx r rt lu'"
  by (simp add: fields_def)

lemma fields_last_update_VNone:
  "fields k d b m mn mx r rt lu \<Longrightarrow> fields k (d(''last_update'' \<mapsto> VNone)) b m mn mx r rt None"
  by (simp add: fields_def)

lemma fields_last_update_VNum:
  "fields k d b m mn mx r rt lu \<Longrightarrow> fields k (d(''last_update'' \<mapsto> VNum t)) b m mn mx r rt (Some t)"
  by (simp add: fields_def)

lemma fields_current:
  "fields k d b m mn mx r rt lu \<Longrightarrow> fields k (d(''current'' \<mapsto> x)) b m mn mx r rt lu"
  by (simp add: fields_def)

lemma fields_ratetarget:
  "fields k d b m mn mx r rt lu \<Longrightarrow> fields k (d(''ratetarget'' \<mapsto> VNum t)) b m mn mx r (Some t) lu"
  by (simp add: fields_def)

lemma within_boundaries_fields:
  assumes "fields k d b m mn mx r rt lu"
  shows "within_boundaries k d (VNum v) =
           Inr (\<not> at_or_below (lower k mn) v \<and> \<not> at_or_above (upper k b m mx) v)"
  using assms
  by (cases mn; cases mx)
     (auto simp: fields_def bound_defs op_defs get_min_def get_max_def get_base_def get_mod_def
        within_boundaries_def)

lemma enforce_boundaries_fields:
  assumes "fields k d b m mn mx r rt lu"
  shows "enforce_boundaries k d (VNum v) = Inr (VNum (clamp (lower k mn) (upper k b m mx) v))"
  using assms
  by (cases mn; cases mx)
     (auto simp: fields_def bound_defs op_defs get_min_def get_max_def get_base_def get_mod_def
        enforce_boundaries_def)

lemma passed_ratetarget_fields:
  assumes "fields k d b m mn mx r rt lu"
  shows "passed_ratetarget d (VNum v) = Inr (reached r rt v)"
  using assms
  by (cases rt) (auto simp: fields_def bound_defs op_defs get_rate_def passed_ratetarget_def)

lemma stop_timer_fields:
  assumes "fields k d b m mn mx r rt lu"
  shows "stop_timer d = Inr (if r \<noteq> 0 \<and> lu \<noteq> None then d(''last_update'' \<mapsto> VNone) else d)"
  using assms
  by (cases lu) (auto simp: fields_def op_defs get_rate_def stop_timer_def)

lemma check_and_start_timer_fields:
  assumes "fields k d b m mn mx r rt lu"
  shows "check_and_start_timer k now d (VNum v) =
           Inr (if r \<noteq> 0 \<and> lu = None
                   \<and> \<not> at_or_below (lower k mn) v \<and> \<not> at_or_above (upper k b m mx) v
                   \<and> \<not> reached r rt v
                then d(''last_update'' \<mapsto> VNum now) else d)"
  using assms
  by (simp add: check_and_start_timer_def within_boundaries_fields [OF assms]
        passed_ratetarget_fields [OF assms] fields_def op_defs get_rate_def)

lemma update_current_fields:
  assumes "fields k d b m mn mx r rt lu"
  shows "update_current k now d (VNum c) =
           Inr (if r \<noteq> 0 \<and> lu \<noteq> None
                then (let cur = c + r * (now - the lu); v = cur + mod_part k m in
                      if reached r rt v
                      then (VNum (the rt - mod_part k m),
                            d(''last_update'' \<mapsto> VNone, ''current'' \<mapsto> VNum (the rt - mod_part k m)))
                      else if at_or_below (lower k mn) v \<or> at_or_above (upper k b m mx) v
                      then (VNum (clamp (lower k mn) (upper k b m mx) v - mod_part k m),
                            d(''last_update'' \<mapsto> VNone,
                              ''current'' \<mapsto> VNum (clamp (lower k mn) (upper k b m mx) v - mod_part k m)))
                      else (VNum cur, d(''last_update'' \<mapsto> VNum now, ''current'' \<mapsto> VNum cur)))
                else (VNum c, d))"
proof (cases "r \<noteq> 0 \<and> lu \<noteq> None")
  case False
  with assms show ?thesis
    by (cases lu) (auto simp: update_current_def fields_def op_defs get_rate_def)
next
  case True
  then obtain t0 where lu: "lu = Some t0" by (cases lu) auto
  from assms have k: "k = Counter \<or> k = Gauge" and m: "d ''mod'' = Some (VNum m)"
    and r: "d ''rate'' = Some (VNum r)" and l: "d ''last_update'' = Some (VNum t0)"
    and t: "d ''ratetarget'' = Some (onum rt)"
    by (simp_all add: fields_def lu)
  have wm: "with_mod k d (VNum x) = Inr (VNum (x + mod_part k m))" for x
    using k m by (auto simp: with_mod_def mod_part_def op_defs get_mod_def)
  have wo: "without_mod k d (VNum x) = Inr (VNum (x - mod_part k m))" for x
    using k m by (auto simp: without_mod_def mod_part_def op_defs get_mod_def)
  show ?thesis
    using True r l t
    by (cases rt)
       (simp_all add: update_current_def lu wm wo passed_ratetarget_fields [OF assms]
          within_boundaries_fields [OF assms] enforce_boundaries_fields [OF assms]
          stop_timer_fields [OF assms] op_defs get_rate_def Let_def reached_def)
qed

lemma get_current_fields:
  assumes "fields k d b m mn mx r rt lu" and "d ''current'' = map_option VNum cur"
  shows "get_current k now d = update_current k now d (VNum (start_value k b m mn mx cur))"
proof -
  from assms(1) have k: "k = Counter \<or> k = Gauge" and b: "d ''base'' = Some (VNum b)"
    and m: "d ''mod'' = Some (VNum m)"
    by (simp_all add: fields_def)
  show ?thesis
    using k b m assms(2) enforce_boundaries_fields [OF assms(1)]
    by (cases cur)
       (auto simp: get_current_def start_value_def get_base_def get_mod_def op_defs)
qed

lemma get_value_fields:
  assumes "fields k d b m mn mx r rt lu" and "update_current k now d (VNum s) = Inr (VNum c, d')"
    and "get_current k now d = update_current k now d (VNum s)"
    and "fields k d' b m mn mx r rt lu'"
  shows "get_value k now d =
           (Inr (VNum (if k = Gauge then c else clamp (lower k mn) (upper k b m mx) (c + m))), d')"
proof -
  from assms(4) have m: "d' ''mod'' = Some (VNum m)" by (simp add: fields_def)
  show ?thesis
    using assms(2,3) m enforce_boundaries_fields [OF assms(4)]
    by (simp add: get_value_def get_mod_def op_defs)
qed

lemma clamp_in_bounds:
  assumes "lo \<le> hi"
  shows "lo \<le> clamp (Some lo) (Some hi) v \<and> clamp (Some lo) (Some hi) v \<le> hi"
  using assms by (auto simp: bound_defs)

lemma update_current_total:
  assumes "fields k d b m mn mx r rt lu"
  shows "\<exists>c d' lu'. update_current k now d (VNum s) = Inr (VNum c, d')
           \<and> fields k d' b m mn mx r rt lu'
           \<and> (d' = d \<and> c = s \<or> d' ''current'' = Some (VNum c))"
  unfolding update_current_fields [OF assms] Let_def
  using fields_current [OF fields_last_update_VNone [OF assms]]
    fields_current [OF fields_last_update_VNum [OF assms]] assms
  apply (simp only: split: if_splits)
  apply (intro conjI impI)
     apply (rule exI, rule exI, rule exI, rule conjI, rule refl, fastforce)+
  done

lemma get_value_total:
  assumes "fields k d b m mn mx r rt lu" and "d ''current'' = map_option VNum cur"
  shows "\<exists>x d' lu' cur'. get_value k now d = (Inr (VNum x), d')
           \<and> fields k d' b m mn mx r rt lu'
           \<and> d' ''current'' = map_option VNum cur'
           \<and> (k = Counter \<longrightarrow> (\<exists>c. x = clamp mn mx (c + m)))"
proof -
  let ?s = "start_value k b m mn mx cur"
  from update_current_total [OF assms(1), of now ?s]
  obtain c d' lu' where u: "update_current k now d (VNum ?s) = Inr (VNum c, d')"
    and f: "fields k d' b m mn mx r rt lu'"
    and c: "d' = d \<and> c = ?s \<or> d' ''current'' = Some (VNum c)"
    by blast
  from c assms(2) have "\<exists>cur'. d' ''current'' = map_option VNum cur'"
    by (metis option.simps(9))
  moreover have "k = Counter \<longrightarrow>
      clamp (lower k mn) (upper k b m mx) (c + m) = clamp mn mx (c + m)"
    by (simp add: lower_def upper_def)
  ultimately show ?thesis
    using get_value_fields [OF assms(1) u get_current_fields [OF assms] f] f
    by auto
qed

lemma update_current_again:
  assumes "fields k d b m mn mx r rt lu"
    and "update_current k now d (VNum s) = Inr (VNum c, d')"
  shows "update_current k now d' (VNum c) = Inr (VNum c, d')"
proof (cases "r \<noteq> 0 \<and> lu \<noteq> None")
  case False
  then have "update_current k now d (VNum s) = Inr (VNum s, d)"
    unfolding update_current_fields [OF assms(1)] by auto
  with assms(2) show ?thesis by simp
next
  case True
  define cur where "cur = s + r * (now - the lu)"
  define v where "v = cur + mod_part k m"
  define e where "e = clamp (lower k mn) (upper k b m mx) v - mod_part k m"
  define t where "t = the rt - mod_part k m"
  have fs: "fields k (d(''last_update'' \<mapsto> VNone, ''current'' \<mapsto> VNum x)) b m mn mx r rt None" for x
    by (rule fields_current [OF fields_last_update_VNone [OF assms(1)]])
  have fg: "fields k (d(''last_update'' \<mapsto> VNum now, ''current'' \<mapsto> VNum cur)) b m mn mx r rt (Some now)"
    by (rule fields_current [OF fields_last_update_VNum [OF assms(1)]])
  have u: "update_current k now d (VNum s) =
      Inr (if reached r rt v
           then (VNum t, d(''last_update'' \<mapsto> VNone, ''current'' \<mapsto> VNum t))
           else if at_or_below (lower k mn) v \<or> at_or_above (upper k b m mx) v
           then (VNum e, d(''last_update'' \<mapsto> VNone, ''current'' \<mapsto> VNum e))
           else (VNum cur, d(''last_update'' \<mapsto> VNum now, ''current'' \<mapsto> VNum cur)))"
    unfolding update_current_fields [OF assms(1)] Let_def cur_def v_def e_def t_def
    using True by simp
  show ?thesis
  proof (cases "reached r rt v")
    case True
    with u assms(2) have "c = t" and "d' = d(''last_update'' \<mapsto> VNone, ''current'' \<mapsto> VNum t)"
      by simp_all
    then show ?thesis by (simp add: update_current_fields [OF fs])
  next
    case nr: False
    show ?thesis
    proof (cases "at_or_below (lower k mn) v \<or> at_or_above (upper k b m mx) v")
      case True
      with nr u assms(2) have "c = e" and "d' = d(''last_update'' \<mapsto> VNone, ''current'' \<mapsto> VNum e)"
        by simp_all
      then show ?thesis by (simp add: update_current_fields [OF fs])
    next
      case False
      with nr u assms(2) have c: "c = cur"
        and d': "d' = d(''last_update'' \<mapsto> VNum now, ''current'' \<mapsto> VNum cur)"
        by simp_all
      have "update_current k now (d(''last_update'' \<mapsto> VNum now, ''current'' \<mapsto> VNum cur)) (VNum cur) =
          Inr (VNum cur, d(''last_update'' \<mapsto> VNum now, ''current'' \<mapsto> VNum cur))"
        unfolding update_current_fields [OF fg] Let_def
        using nr False \<open>r \<noteq> 0 \<and> lu \<noteq> None\<close> by (simp add: v_def)
      then show ?thesis by (simp add: c d')
    qed
  qed
qed

text \<open>A second read of \<^verbatim>\<open>value\<close> on a Counter at the same clock reading returns
  the value of the first and leaves the record as the first left it.\<close>

lemma counter_value_reread:
  assumes "fields Counter d b m mn mx r rt lu" and "d ''current'' = map_option VNum cur"
  shows "\<exists>x d'. get_value Counter now d = (Inr (VNum x), d')
           \<and> get_value Counter now d' = (Inr (VNum x), d')"
proof -
  let ?s = "start_value Counter b m mn mx cur"
  from update_current_total [OF assms(1), of now ?s]
  obtain c d' lu' where u: "update_current Counter now d (VNum ?s) = Inr (VNum c, d')"
    and f: "fields Counter d' b m mn mx r rt lu'"
    and c: "d' = d \<and> c = ?s \<or> d' ''current'' = Some (VNum c)"
    by blast
  have g: "get_value Counter now d = (Inr (VNum (clamp (lower Counter mn) (upper Counter b m mx) (c + m))), d')"
    using get_value_fields [OF assms(1) u get_current_fields [OF assms] f] by simp
  from c have "\<exists>cur'. d' ''current'' = map_option VNum cur' \<and> start_value Counter b m mn mx cur' = c"
  proof
    assume "d' = d \<and> c = ?s"
    with assms(2) show ?thesis by blast
  next
    assume "d' ''current'' = Some (VNum c)"
    then have "d' ''current'' = map_option VNum (Some c) \<and> start_value Counter b m mn mx (Some c) = c"
      by (simp add: start_value_def)
    then show ?thesis by blast
  qed
  then obtain cur' where c': "d' ''current'' = map_option VNum cur'"
    and s': "start_value Counter b m mn mx cur' = c"
    by blast
  have u': "update_current Counter now d' (VNum (start_value Counter b m mn mx cur')) = Inr (VNum c, d')"
    unfolding s' by (rule update_current_again [OF assms(1) u])
  have "get_value Counter now d' = (Inr (VNum (clamp (lower Counter mn) (upper Counter b m mx) (c + m))), d')"
    using get_value_fields [OF f u' get_current_fields [OF f c'] f] by simp
  with g show ?thesis by blast
qed

text \<open>\<^verbatim>\<open>Trait.validate_input\<close> names every mandatory key that is missing.\<close>

lemma validate_input_missing:
  assumes "d ''name'' \<noteq> None" and "d ''trait_type'' \<noteq> None"
    and "M = {key. (key, MandatoryTraitKey) \<in> set (default_keys cls) \<and> d key = None}"
    and "M \<noteq> {}"
  shows "validate_input cls d = Inl (TraitException (MissesRequiredKeys (trait_type cls) M))"
proof -
  let ?u = "filter (\<lambda>(key, dflt). d key = None) (default_keys cls)"
  let ?m = "map fst (filter (\<lambda>(key, dflt). dflt = MandatoryTraitKey) ?u)"
  have "set ?m = M"
    unfolding assms(3) by force
  moreover from this assms(4) have "?m \<noteq> []" by (metis empty_set)
  moreover from assms(1,2) obtain n t where "d ''name'' = Some n" and "d ''trait_type'' = Some t"
    by auto
  ultimately show ?thesis
    by (simp add: validate_input_def Let_def)
qed

text \<open>The setter of \<^verbatim>\<open>mod\<close> on a StaticTrait ignores what is not a number.\<close>

lemma static_mod_ignores_non_numbers:
  "\<not> is_num v \<Longrightarrow> trait_setattr StaticTrait now ''mod'' v d = (Inr (), d)"
  by (simp add: attr_defs class_defs set_mod_def)

lemma fields_skill: "fields Counter skill 10 1 (Some 0) (Some 100) 0 None None"
  by (simp add: fields_def skill_def)

lemma fields_hp: "fields Gauge hp 100 0 (Some 0) None 0 None None"
  by (simp add: fields_def hp_def)

section \<open>Lazy decay stops at the rate target\<close>

text \<open>
  C1. A read of \<^verbatim>\<open>current\<close> on a Counter whose timer runs extrapolates
  \<open>c + r * (now - t0)\<close> from the stored current \<open>c\<close> (the base when none is stored) and
  adds \<^verbatim>\<open>mod\<close>; when a rate target is set and this probe has
  reached it in the direction of travel, the read stores and returns
  \<open>ratetarget - mod\<close> and unsets \<^verbatim>\<open>last_update\<close>. For the counter of the documentation
  (base 10, mod 1, bounds 0 and 100, current 41 at \<open>t0\<close>, rate 1, rate target 71) a read of
  \<^verbatim>\<open>value\<close> at \<open>t0 + 100\<close> gives 71, not 100.
\<close>

theorem update_current_stops_at_ratetarget:
  assumes "d ''base'' = Some (VNum b)"
    and "d ''mod'' = Some (VNum m)"
    and "d ''rate'' = Some (VNum r)"
    and "d ''last_update'' = Some (VNum t0)"
    and "d ''current'' = map_option VNum cur"
    and "c = (case cur of None \<Rightarrow> b | Some x \<Rightarrow> x)"
    and "d ''ratetarget'' = Some (VNum rt)"
    and "(0 < r \<and> rt \<le> c + r * (now - t0) + m) \<or> (r < 0 \<and> c + r * (now - t0) + m \<le> rt)"
  shows "get_current Counter now d =
           Inr (VNum (rt - m), d(''last_update'' \<mapsto> VNone, ''current'' \<mapsto> VNum (rt - m)))
         \<and> get_value Counter (s + 100) (hunting s) =
           (Inr (VNum 71), (hunting s)(''last_update'' \<mapsto> VNone, ''current'' \<mapsto> VNum 70))"
proof
  show "get_current Counter now d =
          Inr (VNum (rt - m), d(''last_update'' \<mapsto> VNone, ''current'' \<mapsto> VNum (rt - m)))"
    using assms by (cases cur) (auto simp: op_defs counter_defs)
  show "get_value Counter (s + 100) (hunting s) =
          (Inr (VNum 71), (hunting s)(''last_update'' \<mapsto> VNone, ''current'' \<mapsto> VNum 70))"
    by (simp add: op_defs counter_defs hunting_def)
qed

theorem update_current_stops_at_ratetarget_witness:
  "hunting 0 ''rate'' = Some (VNum 1) \<and> hunting 0 ''ratetarget'' = Some (VNum 71)
   \<and> get_current Counter 100 (hunting 0) =
       Inr (VNum 70, (hunting 0)(''last_update'' \<mapsto> VNone, ''current'' \<mapsto> VNum 70))"
  using update_current_stops_at_ratetarget
    [where d = "hunting 0" and b = 10 and m = 1 and r = 1 and ?t0.0 = 0 and cur = "Some 41"
       and c = 41 and rt = 71 and now = 100]
  by (simp add: hunting_def)

section \<open>Reading twice at one clock reading\<close>

text \<open>
  C2. The claim is that a second read of \<^verbatim>\<open>value\<close> at the same clock reading returns
  what the first returned, on a Counter and on a Gauge. The gauge added with
  \<^verbatim>\<open>base=100, rate=1, ratetarget=150, current=50\<close> at time 0 is stored with its timer
  running. Read at time 200 it has passed the rate target: the read stores and returns
  150, above the maximum 100, and stops the timer. The next read at time 200 clamps the
  stored 150 to the maximum and returns 100.
\<close>

theorem gauge_value_reread_differs:
  "add trait_classes 0 no_traits ''hp'' (Some ''Health'') ''gauge'' True regen_kwargs =
     (Inr (), \<lparr>trait_data = [''hp'' \<mapsto> regen_hp], cache = Map.empty\<rparr>)
   \<and> get_value Gauge 200 regen_hp =
     (Inr (VNum 150), regen_hp(''last_update'' \<mapsto> VNone, ''current'' \<mapsto> VNum 150))
   \<and> get_value Gauge 200 (regen_hp(''last_update'' \<mapsto> VNone, ''current'' \<mapsto> VNum 150)) =
     (Inr (VNum 100), regen_hp(''last_update'' \<mapsto> VNone, ''current'' \<mapsto> VNum 150))"
proof (intro conjI)
  show "add trait_classes 0 no_traits ''hp'' (Some ''Health'') ''gauge'' True regen_kwargs =
     (Inr (), \<lparr>trait_data = [''hp'' \<mapsto> regen_hp], cache = Map.empty\<rparr>)"
    by (simp add: handler_defs class_defs op_defs no_traits_def regen_kwargs_def regen_hp_def
          fun_eq_iff)
  show "get_value Gauge 200 regen_hp =
     (Inr (VNum 150), regen_hp(''last_update'' \<mapsto> VNone, ''current'' \<mapsto> VNum 150))"
    by (simp add: op_defs counter_defs regen_hp_def)
  show "get_value Gauge 200 (regen_hp(''last_update'' \<mapsto> VNone, ''current'' \<mapsto> VNum 150)) =
     (Inr (VNum 100), regen_hp(''last_update'' \<mapsto> VNone, ''current'' \<mapsto> VNum 150))"
    by (simp add: op_defs counter_defs regen_hp_def)
qed

section \<open>The bounds of a counter\<close>

text \<open>
  C3. The claim is that \<open>min \<le> max\<close> and \<open>min \<le> base + mod \<le> max\<close> are established when
  a Counter is constructed and kept by every setter of \<^verbatim>\<open>base\<close>, \<^verbatim>\<open>mod\<close>, \<^verbatim>\<open>min\<close> and
  \<^verbatim>\<open>max\<close>. \<^verbatim>\<open>TraitHandler.add\<close> and \<^verbatim>\<open>validate_input\<close> compare no bounds: the
  counter added with \<^verbatim>\<open>base=10, min=20, max=5\<close> is stored as given. And the setter of
  \<^verbatim>\<open>base\<close> stores the default 0 for \<^verbatim>\<open>None\<close> without clamping it: on the counter
  with base 10, mod 0 and bounds 5 and 100, which satisfies the inequalities,
  \<^verbatim>\<open>base = None\<close> leaves \<open>base + mod = 0\<close> below the minimum.
\<close>

theorem counter_bounds_not_kept:
  "add trait_classes 0 no_traits ''skill'' (Some ''Skill'') ''counter'' True inverted_kwargs =
     (Inr (), \<lparr>trait_data = [''skill'' \<mapsto> inverted], cache = Map.empty\<rparr>)
   \<and> \<not> bounds_hold inverted
   \<and> bounds_hold floored
   \<and> set_base Counter floored VNone = Inr (floored(''base'' \<mapsto> VNum 0))
   \<and> \<not> bounds_hold (floored(''base'' \<mapsto> VNum 0))"
proof (intro conjI)
  show "add trait_classes 0 no_traits ''skill'' (Some ''Skill'') ''counter'' True inverted_kwargs =
     (Inr (), \<lparr>trait_data = [''skill'' \<mapsto> inverted], cache = Map.empty\<rparr>)"
    by (simp add: handler_defs class_defs op_defs no_traits_def inverted_kwargs_def inverted_def
          fun_eq_iff)
  show "\<not> bounds_hold inverted"
    by (simp add: bounds_hold_def inverted_def)
  show "bounds_hold floored"
    by (simp add: bounds_hold_def floored_def)
  show "set_base Counter floored VNone = Inr (floored(''base'' \<mapsto> VNum 0))"
    by (simp add: set_base_def)
  show "\<not> bounds_hold (floored(''base'' \<mapsto> VNum 0))"
    by (simp add: bounds_hold_def floored_def)
qed

text \<open>
  C3, amended. On a Counter that stores both bounds and satisfies \<open>min \<le> max\<close> and
  \<open>min \<le> base + mod \<le> max\<close>, a write of a number \<open>v\<close> changes the written field only.
  \<^verbatim>\<open>base\<close> receives \<open>v\<close> when \<open>v + mod\<close> is within the bounds, \<open>min - mod\<close> when it is
  below and \<open>max - mod\<close> when it is above; \<^verbatim>\<open>mod\<close> likewise with \<^verbatim>\<open>base\<close>. When the
  fields and \<open>v\<close> are integers, \<open>base + mod\<close> then lies on the bound it crossed and the
  inequalities hold. \<^verbatim>\<open>min\<close> receives the least of \<open>v\<close>, \<^verbatim>\<open>max\<close> and \<open>base + mod\<close>,
  \<^verbatim>\<open>max\<close> the greatest of \<open>v\<close>, \<^verbatim>\<open>min\<close> and \<open>base + mod\<close>, and the inequalities hold.
\<close>

theorem counter_setters_keep_bounds:
  assumes "d ''base'' = Some (VNum b)" and "d ''mod'' = Some (VNum m)"
    and "d ''min'' = Some (VNum lo)" and "d ''max'' = Some (VNum hi)"
    and "lo \<le> hi" and "lo \<le> b + m" and "b + m \<le> hi"
  shows "(\<exists>b'. set_base Counter d (VNum v) = Inr (d(''base'' \<mapsto> VNum b'))
              \<and> b' = (let v1 = (if v + m < lo then lo - m else v)
                       in if hi < v1 + m then hi - m else v1)
              \<and> (lo \<le> v + m \<and> v + m \<le> hi \<longrightarrow> b' = v)
              \<and> (m \<in> \<int> \<and> lo \<in> \<int> \<and> hi \<in> \<int> \<and> v \<in> \<int>
                   \<longrightarrow> b' \<in> \<int> \<and> lo \<le> b' + m \<and> b' + m \<le> hi
                       \<and> (v + m < lo \<longrightarrow> b' + m = lo) \<and> (hi < v + m \<longrightarrow> b' + m = hi)))
       \<and> (\<exists>m'. set_mod Counter d (VNum v) = Inr (d(''mod'' \<mapsto> VNum m'))
              \<and> m' = (let v1 = (if v + b < lo then lo - b else v)
                       in if hi < v1 + b then hi - b else v1)
              \<and> (lo \<le> v + b \<and> v + b \<le> hi \<longrightarrow> m' = v)
              \<and> (b \<in> \<int> \<and> lo \<in> \<int> \<and> hi \<in> \<int> \<and> v \<in> \<int>
                   \<longrightarrow> m' \<in> \<int> \<and> lo \<le> b + m' \<and> b + m' \<le> hi
                       \<and> (v + b < lo \<longrightarrow> b + m' = lo) \<and> (hi < v + b \<longrightarrow> b + m' = hi)))
       \<and> (\<exists>lo'. set_min Counter d (VNum v) = Inr (d(''min'' \<mapsto> VNum lo'))
              \<and> lo' = (let v1 = (if v < hi then v else hi)
                        in if b + m < v1 then b + m else v1)
              \<and> lo' \<le> hi \<and> lo' \<le> b + m \<and> lo' \<le> v
              \<and> (v \<le> hi \<and> v \<le> b + m \<longrightarrow> lo' = v))
       \<and> (\<exists>hi'. set_max Counter d (VNum v) = Inr (d(''max'' \<mapsto> VNum hi'))
              \<and> hi' = (let v1 = (if lo < v then v else lo)
                        in if v1 < b + m then b + m else v1)
              \<and> lo \<le> hi' \<and> b + m \<le> hi' \<and> v \<le> hi'
              \<and> (lo \<le> v \<and> b + m \<le> v \<longrightarrow> hi' = v))"
proof (intro conjI)
  let ?b = "let v1 = (if v + m < lo then lo - m else v) in if hi < v1 + m then hi - m else v1"
  have "set_base Counter d (VNum v) = Inr (d(''base'' \<mapsto> VNum ?b))"
    using assms(1-4) by (simp add: set_base_def op_defs get_min_def get_max_def get_mod_def Let_def)
  moreover have "lo \<le> v + m \<and> v + m \<le> hi \<longrightarrow> ?b = v"
    by (simp add: Let_def)
  moreover have "m \<in> \<int> \<and> lo \<in> \<int> \<and> hi \<in> \<int> \<and> v \<in> \<int>
      \<longrightarrow> ?b \<in> \<int> \<and> lo \<le> ?b + m \<and> ?b + m \<le> hi
          \<and> (v + m < lo \<longrightarrow> ?b + m = lo) \<and> (hi < v + m \<longrightarrow> ?b + m = hi)"
    using assms(5) by (auto simp: Let_def)
  ultimately show "\<exists>b'. set_base Counter d (VNum v) = Inr (d(''base'' \<mapsto> VNum b'))
              \<and> b' = (let v1 = (if v + m < lo then lo - m else v)
                       in if hi < v1 + m then hi - m else v1)
              \<and> (lo \<le> v + m \<and> v + m \<le> hi \<longrightarrow> b' = v)
              \<and> (m \<in> \<int> \<and> lo \<in> \<int> \<and> hi \<in> \<int> \<and> v \<in> \<int>
                   \<longrightarrow> b' \<in> \<int> \<and> lo \<le> b' + m \<and> b' + m \<le> hi
                       \<and> (v + m < lo \<longrightarrow> b' + m = lo) \<and> (hi < v + m \<longrightarrow> b' + m = hi))"
    by blast
next
  let ?m = "let v1 = (if v + b < lo then lo - b else v) in if hi < v1 + b then hi - b else v1"
  have "set_mod Counter d (VNum v) = Inr (d(''mod'' \<mapsto> VNum ?m))"
    using assms(1-4) by (simp add: set_mod_def op_defs get_min_def get_max_def get_base_def Let_def)
  moreover have "lo \<le> v + b \<and> v + b \<le> hi \<longrightarrow> ?m = v"
    by (simp add: Let_def)
  moreover have "b \<in> \<int> \<and> lo \<in> \<int> \<and> hi \<in> \<int> \<and> v \<in> \<int>
      \<longrightarrow> ?m \<in> \<int> \<and> lo \<le> b + ?m \<and> b + ?m \<le> hi
          \<and> (v + b < lo \<longrightarrow> b + ?m = lo) \<and> (hi < v + b \<longrightarrow> b + ?m = hi)"
    using assms(5) by (auto simp: Let_def)
  ultimately show "\<exists>m'. set_mod Counter d (VNum v) = Inr (d(''mod'' \<mapsto> VNum m'))
              \<and> m' = (let v1 = (if v + b < lo then lo - b else v)
                       in if hi < v1 + b then hi - b else v1)
              \<and> (lo \<le> v + b \<and> v + b \<le> hi \<longrightarrow> m' = v)
              \<and> (b \<in> \<int> \<and> lo \<in> \<int> \<and> hi \<in> \<int> \<and> v \<in> \<int>
                   \<longrightarrow> m' \<in> \<int> \<and> lo \<le> b + m' \<and> b + m' \<le> hi
                       \<and> (v + b < lo \<longrightarrow> b + m' = lo) \<and> (hi < v + b \<longrightarrow> b + m' = hi))"
    by blast
next
  let ?lo = "let v1 = (if v < hi then v else hi) in if b + m < v1 then b + m else v1"
  have "set_min Counter d (VNum v) = Inr (d(''min'' \<mapsto> VNum ?lo))"
    using assms(1-4)
    by (simp add: set_min_def op_defs get_max_def get_base_def get_mod_def Let_def)
  moreover have "?lo \<le> hi \<and> ?lo \<le> b + m \<and> ?lo \<le> v \<and> (v \<le> hi \<and> v \<le> b + m \<longrightarrow> ?lo = v)"
    using assms(7) by (auto simp: Let_def)
  ultimately show "\<exists>lo'. set_min Counter d (VNum v) = Inr (d(''min'' \<mapsto> VNum lo'))
              \<and> lo' = (let v1 = (if v < hi then v else hi)
                        in if b + m < v1 then b + m else v1)
              \<and> lo' \<le> hi \<and> lo' \<le> b + m \<and> lo' \<le> v
              \<and> (v \<le> hi \<and> v \<le> b + m \<longrightarrow> lo' = v)"
    by blast
next
  let ?hi = "let v1 = (if lo < v then v else lo) in if v1 < b + m then b + m else v1"
  have "set_max Counter d (VNum v) = Inr (d(''max'' \<mapsto> VNum ?hi))"
    using assms(1-4)
    by (simp add: set_max_def op_defs get_min_def get_base_def get_mod_def Let_def)
  moreover have "lo \<le> ?hi \<and> b + m \<le> ?hi \<and> v \<le> ?hi \<and> (lo \<le> v \<and> b + m \<le> v \<longrightarrow> ?hi = v)"
    using assms(6) by (auto simp: Let_def)
  ultimately show "\<exists>hi'. set_max Counter d (VNum v) = Inr (d(''max'' \<mapsto> VNum hi'))
              \<and> hi' = (let v1 = (if lo < v then v else lo)
                        in if v1 < b + m then b + m else v1)
              \<and> lo \<le> hi' \<and> b + m \<le> hi' \<and> v \<le> hi'
              \<and> (lo \<le> v \<and> b + m \<le> v \<longrightarrow> hi' = v)"
    by blast
qed

theorem counter_setters_keep_bounds_witness:
  "skill ''min'' = Some (VNum 0) \<and> skill ''max'' = Some (VNum 100)
   \<and> set_base Counter skill (VNum 500) = Inr (skill(''base'' \<mapsto> VNum 99))
   \<and> set_mod Counter skill (VNum (-50)) = Inr (skill(''mod'' \<mapsto> VNum (-10)))
   \<and> set_min Counter skill (VNum 50) = Inr (skill(''min'' \<mapsto> VNum 11))
   \<and> set_max Counter skill (VNum 5) = Inr (skill(''max'' \<mapsto> VNum 11))"
proof -
  have h: "skill ''base'' = Some (VNum 10)" "skill ''mod'' = Some (VNum 1)"
    "skill ''min'' = Some (VNum 0)" "skill ''max'' = Some (VNum 100)"
    by (simp_all add: skill_def)
  have i: "(0::real) \<le> 100" "(0::real) \<le> 10 + 1" "(10::real) + 1 \<le> 100"
    by simp_all
  from counter_setters_keep_bounds [OF h i, of 500] have "set_base Counter skill (VNum 500) = Inr (skill(''base'' \<mapsto> VNum 99))"
    by (simp add: Let_def)
  moreover from counter_setters_keep_bounds [OF h i, of "-50"]
  have "set_mod Counter skill (VNum (-50)) = Inr (skill(''mod'' \<mapsto> VNum (-10)))"
    by (simp add: Let_def)
  moreover from counter_setters_keep_bounds [OF h i, of 50]
  have "set_min Counter skill (VNum 50) = Inr (skill(''min'' \<mapsto> VNum 11))"
    by (simp add: Let_def)
  moreover from counter_setters_keep_bounds [OF h i, of 5]
  have "set_max Counter skill (VNum 5) = Inr (skill(''max'' \<mapsto> VNum 11))"
    by (simp add: Let_def)
  ultimately show ?thesis using h by simp
qed

section \<open>Writing the current value of a counter\<close>

text \<open>
  C4. The claim is that after a write of a number to \<^verbatim>\<open>current\<close> the stored
  \<open>current + mod\<close> lies within the bounds. The setter clamps the written number itself:
  on the counter with bounds 0 and 100 and mod 1, writing 200 stores 100, and
  \<open>100 + 1\<close> is above the maximum.
\<close>

theorem set_current_mod_overshoot:
  "set_current Counter 0 skill (VNum 200) = Inr (skill(''current'' \<mapsto> VNum 100))
   \<and> \<not> current_plus_mod_within (skill(''current'' \<mapsto> VNum 100))"
  by (simp add: set_current_def op_defs counter_defs current_plus_mod_within_def skill_def)

text \<open>
  C4, amended. On a Counter with both bounds set and \<open>min \<le> max\<close>, a write of a number to
  \<^verbatim>\<open>current\<close> stores that number clamped into the bounds, so \<open>min \<le> current \<le> max\<close>
  after the write; \<^verbatim>\<open>mod\<close> is added when \<^verbatim>\<open>value\<close> is read, and every later read of
  \<^verbatim>\<open>value\<close> lies within the bounds.
\<close>

theorem set_current_clamps_current:
  assumes "fields Counter d b m (Some lo) (Some hi) r rt lu" and "lo \<le> hi"
  shows "\<exists>d' c. set_current Counter now d (VNum v) = Inr d'
           \<and> d' ''current'' = Some (VNum c) \<and> lo \<le> c \<and> c \<le> hi
           \<and> c = (if v \<le> lo then lo else if hi \<le> v then hi else v)
           \<and> (\<exists>x d''. get_value Counter later d' = (Inr (VNum x), d'') \<and> lo \<le> x \<and> x \<le> hi)"
proof -
  let ?c = "clamp (Some lo) (Some hi) v"
  let ?d0 = "if r \<noteq> 0 \<and> lu = None \<and> \<not> at_or_below (Some lo) ?c \<and> \<not> at_or_above (Some hi) ?c
                \<and> \<not> reached r rt ?c
             then d(''last_update'' \<mapsto> VNum now) else d"
  let ?d' = "?d0(''current'' \<mapsto> VNum ?c)"
  have s: "set_current Counter now d (VNum v) = Inr ?d'"
    using enforce_boundaries_fields [OF assms(1), of v] check_and_start_timer_fields [OF assms(1), of now ?c]
    by (simp add: set_current_def op_defs lower_def upper_def)
  have "\<exists>lu'. fields Counter ?d0 b m (Some lo) (Some hi) r rt lu'"
    using assms(1) fields_last_update_VNum [OF assms(1)] by (auto split: if_splits)
  then obtain lu' where f: "fields Counter ?d' b m (Some lo) (Some hi) r rt lu'"
    using fields_current by blast
  have cur: "?d' ''current'' = map_option VNum (Some ?c)" by simp
  from get_value_total [OF f cur, of later]
  obtain x d'' c0 where g: "get_value Counter later ?d' = (Inr (VNum x), d'')"
    and x: "x = clamp (Some lo) (Some hi) (c0 + m)"
    by blast
  from clamp_in_bounds [OF assms(2)] x have "lo \<le> x \<and> x \<le> hi" by simp
  moreover have "?c = (if v \<le> lo then lo else if hi \<le> v then hi else v)"
    by (simp add: bound_defs)
  moreover have "?d' ''current'' = Some (VNum ?c)" by simp
  ultimately show ?thesis
    using s g clamp_in_bounds [OF assms(2), of v] by blast
qed

theorem set_current_clamps_current_witness:
  "fields Counter skill 10 1 (Some 0) (Some 100) 0 None None
   \<and> (\<exists>d'. set_current Counter 0 skill (VNum 200) = Inr d'
          \<and> d' ''current'' = Some (VNum 100))"
  using set_current_clamps_current [OF fields_skill, of 0 200 7] fields_skill
  by auto

section \<open>A failed add\<close>

text \<open>
  C5. The claim is that an add whose fields fail validation leaves the store as it was,
  and that with \<^verbatim>\<open>force\<close> a record that was stored under the key is still there.
  \<^verbatim>\<open>TraitHandler.add\<close> removes the old record before it validates: on the handler
  holding the gauge \<^verbatim>\<open>hp\<close>, adding a \<^verbatim>\<open>quest\<close> trait under the key \<^verbatim>\<open>hp\<close> without its
  mandatory \<^verbatim>\<open>goal\<close> raises, and the handler is left empty.
\<close>

theorem add_failure_drops_old_record:
  "add (trait_classes(''quest'' \<mapsto> QuestTrait)) 0 one_trait ''hp'' (Some ''Errand'') ''quest'' True
       [''giver'' \<mapsto> VStr ''Elder'']
     = (Inl (TraitException (MissesRequiredKeys ''quest'' {''goal''})), no_traits)
   \<and> trait_data one_trait ''hp'' = Some hp \<and> trait_data no_traits ''hp'' = None"
  by (simp add: handler_defs class_defs QuestTrait_def one_trait_def no_traits_def fun_eq_iff)

text \<open>
  C5, amended. An add that is not refused as a duplicate and whose fields miss mandatory
  keys of the class raises a TraitException naming every missing mandatory key and stores
  no new record. When the key was free the handler is unchanged; when it was taken (and
  \<^verbatim>\<open>force\<close> is set) the old record and its cached wrapper have been removed.
\<close>

theorem add_missing_mandatory:
  assumes "registry ttype = Some cls"
    and "M = {key. (key, MandatoryTraitKey) \<in> set (default_keys cls)
                \<and> key \<noteq> ''name'' \<and> key \<noteq> ''trait_type'' \<and> trait_properties key = None}"
    and "M \<noteq> {}"
    and "trait_data h trait_key = None \<or> force"
  shows "add registry now h trait_key name ttype force trait_properties =
           (Inl (TraitException (MissesRequiredKeys (trait_type cls) M)),
            if trait_data h trait_key = None then h
            else h\<lparr>cache := (cache h)(trait_key := None),
                   trait_data := (trait_data h)(trait_key := None)\<rparr>)"
proof -
  let ?d = "trait_properties(
              ''name'' \<mapsto> VStr (case name of None \<Rightarrow> title trait_key
                                  | Some n \<Rightarrow> if n = [] then title trait_key else n),
              ''trait_type'' \<mapsto> VStr ttype)"
  have M: "M = {key. (key, MandatoryTraitKey) \<in> set (default_keys cls) \<and> ?d key = None}"
    unfolding assms(2) by auto
  have v: "validate_input cls ?d = Inl (TraitException (MissesRequiredKeys (trait_type cls) M))"
    by (rule validate_input_missing [OF _ _ M assms(3)]) simp_all
  then have "fst (cls_validate_input cls now ?d) =
      Inl (TraitException (MissesRequiredKeys (trait_type cls) M))"
    by (simp add: cls_validate_input_def counter_validate_input_def)
  then obtain d' where c: "cls_validate_input cls now ?d =
      (Inl (TraitException (MissesRequiredKeys (trait_type cls) M)), d')"
    by (cases "cls_validate_input cls now ?d") auto
  show ?thesis
    using assms(1,4) c by (auto simp: add_def remove_def)
qed

theorem add_missing_mandatory_witness:
  "(trait_classes(''quest'' \<mapsto> QuestTrait)) ''quest'' = Some QuestTrait
   \<and> add (trait_classes(''quest'' \<mapsto> QuestTrait)) 0 no_traits ''errand'' None ''quest'' True
        [''giver'' \<mapsto> VStr ''Elder'']
      = (Inl (TraitException (MissesRequiredKeys ''quest'' {''goal''})), no_traits)"
proof -
  have m: "{''goal''} = {key. (key, MandatoryTraitKey) \<in> set (default_keys QuestTrait)
      \<and> key \<noteq> ''name'' \<and> key \<noteq> ''trait_type'' \<and> [''giver'' \<mapsto> VStr ''Elder''] key = None}"
    by (auto simp: QuestTrait_def)
  have r: "(trait_classes(''quest'' \<mapsto> QuestTrait)) ''quest'' = Some QuestTrait"
    by simp
  have t: "trait_type QuestTrait = ''quest''"
    by (simp add: QuestTrait_def)
  have e: "trait_data no_traits ''errand'' = None \<or> True"
    by simp
  have n: "{''goal''} \<noteq> ({} :: string set)"
    by simp
  from add_missing_mandatory
    [where registry = "trait_classes(''quest'' \<mapsto> QuestTrait)" and ttype = "''quest''"
       and cls = QuestTrait and M = "{''goal''}"
       and trait_properties = "[''giver'' \<mapsto> VStr ''Elder'']" and h = no_traits
       and trait_key = "''errand''" and force = True and now = 0 and name = None,
     OF r m n e]
  have "add (trait_classes(''quest'' \<mapsto> QuestTrait)) 0 no_traits ''errand'' None ''quest'' True
          [''giver'' \<mapsto> VStr ''Elder'']
        = (Inl (TraitException (MissesRequiredKeys ''quest'' {''goal''})), no_traits)"
    by (simp add: t no_traits_def)
  with r show ?thesis by simp
qed

section \<open>Starting the timer\<close>

text \<open>
  C6. The claim is that the timer check also runs after a write to \<^verbatim>\<open>rate\<close>, so that a
  nonzero rate has a running timer while the value is inside its bounds and short of the
  rate target. CounterTrait has no property \<^verbatim>\<open>rate\<close>: \<^verbatim>\<open>Trait.__setattr__\<close> stores the
  value and nothing else. On the counter of the documentation, with \<^verbatim>\<open>value\<close> 41 and
  rate target 71, \<^verbatim>\<open>rate = 1\<close> leaves \<^verbatim>\<open>last_update\<close> unset, and five seconds later
  \<^verbatim>\<open>value\<close> is still 41 (the documentation shows 46). The check itself, had it run on
  41, would have started the timer.
\<close>

theorem rate_write_leaves_timer_off:
  "trait_setattr CounterTrait now ''rate'' v d = (Inr (), d(''rate'' \<mapsto> v))
   \<and> trait_setattr GaugeTrait now ''rate'' v d = (Inr (), d(''rate'' \<mapsto> v))
   \<and> trait_setattr CounterTrait 0 ''rate'' (VNum 1) debuffed = (Inr (), debuffed(''rate'' \<mapsto> VNum 1))
   \<and> (debuffed(''rate'' \<mapsto> VNum 1)) ''last_update'' = Some VNone
   \<and> get_value Counter 5 (debuffed(''rate'' \<mapsto> VNum 1)) =
       (Inr (VNum 41), debuffed(''rate'' \<mapsto> VNum 1))
   \<and> check_and_start_timer Counter 0 (debuffed(''rate'' \<mapsto> VNum 1)) (VNum 41) =
       Inr (debuffed(''rate'' \<mapsto> VNum 1, ''last_update'' \<mapsto> VNum 0))"
proof (intro conjI)
  show "trait_setattr CounterTrait now ''rate'' v d = (Inr (), d(''rate'' \<mapsto> v))"
    by (simp add: attr_defs class_defs)
  show "trait_setattr GaugeTrait now ''rate'' v d = (Inr (), d(''rate'' \<mapsto> v))"
    by (simp add: attr_defs class_defs)
  show "trait_setattr CounterTrait 0 ''rate'' (VNum 1) debuffed =
      (Inr (), debuffed(''rate'' \<mapsto> VNum 1))"
    by (simp add: attr_defs class_defs)
  show "(debuffed(''rate'' \<mapsto> VNum 1)) ''last_update'' = Some VNone"
    by (simp add: debuffed_def)
  show "get_value Counter 5 (debuffed(''rate'' \<mapsto> VNum 1)) =
      (Inr (VNum 41), debuffed(''rate'' \<mapsto> VNum 1))"
    by (simp add: op_defs counter_defs debuffed_def)
  show "check_and_start_timer Counter 0 (debuffed(''rate'' \<mapsto> VNum 1)) (VNum 41) =
      Inr (debuffed(''rate'' \<mapsto> VNum 1, ''last_update'' \<mapsto> VNum 0))"
    by (simp add: op_defs counter_defs debuffed_def)
qed

section \<open>The maximum of a gauge is read-only\<close>

text \<open>
  C7. On a Gauge \<^verbatim>\<open>max\<close> is computed, not stored: it reads as \<open>base + mod\<close> whatever
  the record holds, \<^verbatim>\<open>max\<close> is no default key of the class, and setting or deleting it
  raises a TraitException and leaves the record as it was. After \<^verbatim>\<open>base = 110\<close> on
  the gauge with mod 0, \<^verbatim>\<open>max\<close> reads 110.
\<close>

theorem gauge_max_read_only:
  assumes "d ''base'' = Some (VNum b)" and "d ''mod'' = Some (VNum m)"
  shows "get_max Gauge d = Inr (VNum (b + m))
         \<and> get_max Gauge (d(''max'' \<mapsto> x)) = Inr (VNum (b + m))
         \<and> map_of (default_keys GaugeTrait) ''max'' = None
         \<and> trait_setattr GaugeTrait now ''max'' v d = (Inl (TraitException MaxNotSettable), d)
         \<and> trait_delattr GaugeTrait ''max'' d = (Inl (TraitException MaxNotResettable), d)
         \<and> trait_setattr GaugeTrait now ''base'' (VNum 110) hp = (Inr (), hp(''base'' \<mapsto> VNum 110))
         \<and> get_max Gauge (hp(''base'' \<mapsto> VNum 110)) = Inr (VNum 110)"
  using assms
  by (simp add: op_defs counter_defs setter_defs attr_defs class_defs hp_def)

theorem gauge_max_read_only_witness:
  "get_max Gauge hp = Inr (VNum 100)
   \<and> trait_setattr GaugeTrait 0 ''max'' (VNum 120) hp = (Inl (TraitException MaxNotSettable), hp)
   \<and> trait_delattr GaugeTrait ''max'' hp = (Inl (TraitException MaxNotResettable), hp)"
  using gauge_max_read_only [of hp 100 0 VNone 0 "VNum 120"]
  by (simp add: hp_def)

section \<open>A gauge starts full\<close>

lemma gauge_default_current:
  assumes "fields Gauge d b m mn mx r rt lu" and "d ''current'' = None"
  shows "map_sum id fst (get_current Gauge now d) =
         map_sum id fst (get_current Gauge now (d(''current'' \<mapsto> VNum (b + m))))"
proof -
  let ?d = "d(''current'' \<mapsto> VNum (b + m))"
  let ?s = "clamp (lower Gauge mn) (upper Gauge b m mx) (b + m)"
  have f: "fields Gauge ?d b m mn mx r rt lu" by (rule fields_current [OF assms(1)])
  have c: "d ''current'' = map_option VNum None" using assms(2) by simp
  have c': "?d ''current'' = map_option VNum (Some (b + m))" by simp
  have s: "start_value Gauge b m mn mx None = ?s"
    and s': "start_value Gauge b m mn mx (Some (b + m)) = ?s"
    by (simp_all add: start_value_def)
  have g: "get_current Gauge now d = update_current Gauge now d (VNum ?s)"
    using get_current_fields [OF assms(1) c, of now] unfolding s .
  have g': "get_current Gauge now ?d = update_current Gauge now ?d (VNum ?s)"
    using get_current_fields [OF f c', of now] unfolding s' .
  show ?thesis
    unfolding g g' update_current_fields [OF assms(1)] update_current_fields [OF f]
    by (simp add: Let_def)
qed

lemma gauge_defaults:
  assumes "fields Gauge d b m mn mx r rt lu"
  shows "(d ''current'' = None \<and> (r = 0 \<or> lu = None) \<and> (case mn of None \<Rightarrow> 0 | Some lo \<Rightarrow> lo) \<le> b + m
            \<longrightarrow> get_value Gauge now d = (Inr (VNum (b + m)), d))
       \<and> get_value Gauge now d =
           (case get_current Gauge now d of Inl e \<Rightarrow> (Inl e, d) | Inr (c, d') \<Rightarrow> (Inr c, d'))
       \<and> reset GaugeTrait d = (Inr (), d(''current'' \<mapsto> VNum (b + m)))
       \<and> (r = 0 \<or> lu = None \<longrightarrow> (case mn of None \<Rightarrow> 0 | Some lo \<Rightarrow> lo) \<le> b + m
            \<longrightarrow> get_value Gauge now (d(''current'' \<mapsto> VNum (b + m))) =
                  (Inr (VNum (b + m)), d(''current'' \<mapsto> VNum (b + m))))"
proof (intro conjI impI)
  have nt: "r = 0 \<or> lu = None \<Longrightarrow> fields Gauge d' b m mn mx r rt lu \<Longrightarrow>
      update_current Gauge now d' (VNum x) = Inr (VNum x, d')" for d' x
    by (subst update_current_fields) auto
  have full: "(case mn of None \<Rightarrow> 0 | Some lo \<Rightarrow> lo) \<le> b + m \<Longrightarrow>
      clamp (lower Gauge mn) (upper Gauge b m mx) (b + m) = b + m"
    by (auto simp: bound_defs)
  {
    assume a: "d ''current'' = None \<and> (r = 0 \<or> lu = None) \<and> (case mn of None \<Rightarrow> 0 | Some lo \<Rightarrow> lo) \<le> b + m"
    then have c: "d ''current'' = map_option VNum None" by simp
    have s: "start_value Gauge b m mn mx None = b + m"
      using a full by (simp add: start_value_def)
    have u: "update_current Gauge now d (VNum (b + m)) = Inr (VNum (b + m), d)"
      using a nt [OF _ assms] by blast
    have gc: "get_current Gauge now d = update_current Gauge now d (VNum (b + m))"
      using get_current_fields [OF assms c, of now] unfolding s .
    show "get_value Gauge now d = (Inr (VNum (b + m)), d)"
      using get_value_fields [OF assms u gc assms] by simp
  }
  show "get_value Gauge now d =
      (case get_current Gauge now d of Inl e \<Rightarrow> (Inl e, d) | Inr (c, d') \<Rightarrow> (Inr c, d'))"
    by (simp add: get_value_def split: sum.splits prod.splits)
  show "reset GaugeTrait d = (Inr (), d(''current'' \<mapsto> VNum (b + m)))"
    using assms
    by (simp add: fields_def attr_defs class_defs del_current_def get_base_def get_mod_def op_defs)
  {
    assume a: "r = 0 \<or> lu = None" and l: "(case mn of None \<Rightarrow> 0 | Some lo \<Rightarrow> lo) \<le> b + m"
    let ?d = "d(''current'' \<mapsto> VNum (b + m))"
    have f: "fields Gauge ?d b m mn mx r rt lu" by (rule fields_current [OF assms])
    have c: "?d ''current'' = map_option VNum (Some (b + m))" by simp
    have s: "start_value Gauge b m mn mx (Some (b + m)) = b + m"
      using full [OF l] by (simp add: start_value_def)
    have u: "update_current Gauge now ?d (VNum (b + m)) = Inr (VNum (b + m), ?d)"
      using a nt [OF _ f] by blast
    have gc: "get_current Gauge now ?d = update_current Gauge now ?d (VNum (b + m))"
      using get_current_fields [OF f c, of now] unfolding s .
    show "get_value Gauge now ?d = (Inr (VNum (b + m)), ?d)"
      using get_value_fields [OF f u gc f] by simp
  }
qed

lemma gauge_refill_example:
  "add trait_classes 0 no_traits ''hp'' (Some ''Health'') ''gauge'' True [''base'' \<mapsto> VNum 100] =
     (Inr (), \<lparr>trait_data = [''hp'' \<mapsto> hp], cache = Map.empty\<rparr>)
   \<and> get trait_classes 1 \<lparr>trait_data = [''hp'' \<mapsto> hp], cache = Map.empty\<rparr> ''hp'' =
       (Inr (Some GaugeTrait), \<lparr>trait_data = [''hp'' \<mapsto> hp], cache = [''hp'' \<mapsto> GaugeTrait]\<rparr>)
   \<and> get_value Gauge 1 hp = (Inr (VNum 100), hp)
   \<and> isub_current GaugeTrait 1 (VNum 30) hp = (Inr (), hp(''current'' \<mapsto> VNum 70))
   \<and> get_value Gauge 2 (hp(''current'' \<mapsto> VNum 70)) = (Inr (VNum 70), hp(''current'' \<mapsto> VNum 70))
   \<and> reset GaugeTrait (hp(''current'' \<mapsto> VNum 70)) = (Inr (), hp(''current'' \<mapsto> VNum 100))
   \<and> get_value Gauge 3 (hp(''current'' \<mapsto> VNum 100)) =
       (Inr (VNum 100), hp(''current'' \<mapsto> VNum 100))"
proof (intro conjI)
  show "add trait_classes 0 no_traits ''hp'' (Some ''Health'') ''gauge'' True [''base'' \<mapsto> VNum 100] =
     (Inr (), \<lparr>trait_data = [''hp'' \<mapsto> hp], cache = Map.empty\<rparr>)"
    by (simp add: handler_defs class_defs op_defs no_traits_def hp_def fun_eq_iff)
  show "get trait_classes 1 \<lparr>trait_data = [''hp'' \<mapsto> hp], cache = Map.empty\<rparr> ''hp'' =
       (Inr (Some GaugeTrait), \<lparr>trait_data = [''hp'' \<mapsto> hp], cache = [''hp'' \<mapsto> GaugeTrait]\<rparr>)"
    by (simp add: handler_defs class_defs op_defs hp_def fun_eq_iff)
  show "get_value Gauge 1 hp = (Inr (VNum 100), hp)"
    by (simp add: op_defs counter_defs hp_def)
  show "isub_current GaugeTrait 1 (VNum 30) hp = (Inr (), hp(''current'' \<mapsto> VNum 70))"
    by (simp add: attr_defs class_defs set_current_def op_defs counter_defs hp_def)
  show "get_value Gauge 2 (hp(''current'' \<mapsto> VNum 70)) = (Inr (VNum 70), hp(''current'' \<mapsto> VNum 70))"
    by (simp add: op_defs counter_defs hp_def)
  show "reset GaugeTrait (hp(''current'' \<mapsto> VNum 70)) = (Inr (), hp(''current'' \<mapsto> VNum 100))"
    by (simp add: attr_defs class_defs del_current_def op_defs counter_defs hp_def)
  show "get_value Gauge 3 (hp(''current'' \<mapsto> VNum 100)) =
       (Inr (VNum 100), hp(''current'' \<mapsto> VNum 100))"
    by (simp add: op_defs counter_defs hp_def)
qed

text \<open>
  C8. The claim is that a freshly added Gauge reads \<open>base + mod\<close>. The getter of
  \<^verbatim>\<open>current\<close> clamps the default and applies the rate: the gauge added with
  \<^verbatim>\<open>base=-5\<close> has \<open>base + mod = -5\<close> and reads its minimum 0, and the gauge added with
  \<^verbatim>\<open>base=100, rate=-1\<close> at time 0 reads 90 at time 10.
\<close>

theorem gauge_fresh_read_not_full:
  "add trait_classes 0 no_traits ''hp'' (Some ''Health'') ''gauge'' True [''base'' \<mapsto> VNum (- 5)] =
     (Inr (), \<lparr>trait_data = [''hp'' \<mapsto> drained], cache = Map.empty\<rparr>)
   \<and> get_max Gauge drained = Inr (VNum (- 5))
   \<and> get_value Gauge 0 drained = (Inr (VNum 0), drained)
   \<and> add trait_classes 0 no_traits ''hp'' (Some ''Health'') ''gauge'' True
        [''base'' \<mapsto> VNum 100, ''rate'' \<mapsto> VNum (- 1)] =
     (Inr (), \<lparr>trait_data = [''hp'' \<mapsto> leaking], cache = Map.empty\<rparr>)
   \<and> get_value Gauge 10 leaking =
       (Inr (VNum 90), leaking(''last_update'' \<mapsto> VNum 10, ''current'' \<mapsto> VNum 90))"
proof (intro conjI)
  show "add trait_classes 0 no_traits ''hp'' (Some ''Health'') ''gauge'' True [''base'' \<mapsto> VNum (- 5)] =
     (Inr (), \<lparr>trait_data = [''hp'' \<mapsto> drained], cache = Map.empty\<rparr>)"
    by (simp add: handler_defs class_defs op_defs no_traits_def drained_def fun_eq_iff)
  show "get_max Gauge drained = Inr (VNum (- 5))"
    by (simp add: op_defs counter_defs drained_def)
  show "get_value Gauge 0 drained = (Inr (VNum 0), drained)"
    by (simp add: op_defs counter_defs drained_def)
  show "add trait_classes 0 no_traits ''hp'' (Some ''Health'') ''gauge'' True
        [''base'' \<mapsto> VNum 100, ''rate'' \<mapsto> VNum (- 1)] =
     (Inr (), \<lparr>trait_data = [''hp'' \<mapsto> leaking], cache = Map.empty\<rparr>)"
    by (simp add: handler_defs class_defs op_defs no_traits_def leaking_def fun_eq_iff)
  show "get_value Gauge 10 leaking =
       (Inr (VNum 90), leaking(''last_update'' \<mapsto> VNum 10, ''current'' \<mapsto> VNum 90))"
    by (simp add: op_defs counter_defs leaking_def)
qed

text \<open>
  C8, amended. A Gauge that stores no \<^verbatim>\<open>current\<close> reads, at every clock reading, what it would
  read with \<open>base + mod\<close> stored as \<^verbatim>\<open>current\<close>: that is its default. When its timer
  is not running and its minimum does not exceed \<open>base + mod\<close>, \<^verbatim>\<open>value\<close> reads
  \<open>base + mod\<close>: the gauge starts full. \<^verbatim>\<open>value\<close> is \<^verbatim>\<open>current\<close>, with no \<^verbatim>\<open>mod\<close> added. \<^verbatim>\<open>reset()\<close> stores
  \<open>base + mod\<close> as \<^verbatim>\<open>current\<close>, and \<^verbatim>\<open>value\<close> then reads \<open>base + mod\<close>. For the gauge
  added with \<^verbatim>\<open>base=100\<close> and fetched from the handler: it reads 100, after \<^verbatim>\<open>current -= 30\<close> it reads 70, and
  after \<^verbatim>\<open>reset()\<close> it reads 100.
\<close>

theorem gauge_current_defaults_full:
  assumes "fields Gauge d b m mn mx r rt lu"
  shows "(d ''current'' = None
            \<longrightarrow> map_sum id fst (get_current Gauge now d) =
                map_sum id fst (get_current Gauge now (d(''current'' \<mapsto> VNum (b + m)))))
       \<and> ((d ''current'' = None \<and> (r = 0 \<or> lu = None)
             \<and> (case mn of None \<Rightarrow> 0 | Some lo \<Rightarrow> lo) \<le> b + m
            \<longrightarrow> get_value Gauge now d = (Inr (VNum (b + m)), d))
          \<and> get_value Gauge now d =
              (case get_current Gauge now d of
                 Inl e \<Rightarrow> (Inl e, d) | Inr (c, d') \<Rightarrow> (Inr c, d'))
          \<and> reset GaugeTrait d = (Inr (), d(''current'' \<mapsto> VNum (b + m)))
          \<and> (r = 0 \<or> lu = None \<longrightarrow> (case mn of None \<Rightarrow> 0 | Some lo \<Rightarrow> lo) \<le> b + m
               \<longrightarrow> get_value Gauge now (d(''current'' \<mapsto> VNum (b + m))) =
                     (Inr (VNum (b + m)), d(''current'' \<mapsto> VNum (b + m)))))
       \<and> (add trait_classes 0 no_traits ''hp'' (Some ''Health'') ''gauge'' True
             [''base'' \<mapsto> VNum 100] =
             (Inr (), \<lparr>trait_data = [''hp'' \<mapsto> hp], cache = Map.empty\<rparr>)
          \<and> get trait_classes 1 \<lparr>trait_data = [''hp'' \<mapsto> hp], cache = Map.empty\<rparr> ''hp'' =
              (Inr (Some GaugeTrait),
               \<lparr>trait_data = [''hp'' \<mapsto> hp], cache = [''hp'' \<mapsto> GaugeTrait]\<rparr>)
          \<and> get_value Gauge 1 hp = (Inr (VNum 100), hp)
          \<and> isub_current GaugeTrait 1 (VNum 30) hp = (Inr (), hp(''current'' \<mapsto> VNum 70))
          \<and> get_value Gauge 2 (hp(''current'' \<mapsto> VNum 70)) =
              (Inr (VNum 70), hp(''current'' \<mapsto> VNum 70))
          \<and> reset GaugeTrait (hp(''current'' \<mapsto> VNum 70)) =
              (Inr (), hp(''current'' \<mapsto> VNum 100))
          \<and> get_value Gauge 3 (hp(''current'' \<mapsto> VNum 100)) =
              (Inr (VNum 100), hp(''current'' \<mapsto> VNum 100)))"
proof -
  have "d ''current'' = None
      \<longrightarrow> map_sum id fst (get_current Gauge now d) =
          map_sum id fst (get_current Gauge now (d(''current'' \<mapsto> VNum (b + m))))"
    using gauge_default_current [OF assms] by blast
  then show ?thesis
    by (rule conjI [OF _ conjI [OF gauge_defaults [OF assms] gauge_refill_example]])
qed

theorem gauge_current_defaults_full_witness:
  "fields Gauge hp 100 0 (Some 0) None 0 None None
   \<and> hp ''current'' = None
   \<and> get_value Gauge 5 hp = (Inr (VNum 100), hp)
   \<and> reset GaugeTrait hp = (Inr (), hp(''current'' \<mapsto> VNum 100))"
proof -
  have c: "hp ''current'' = None" by (simp add: hp_def)
  from gauge_current_defaults_full [OF fields_hp, of 5] c
  have "get_value Gauge 5 hp = (Inr (VNum (100 + 0)), hp)"
    and "reset GaugeTrait hp = (Inr (), hp(''current'' \<mapsto> VNum (100 + 0)))"
    by simp_all
  with c fields_hp show ?thesis by simp
qed

section \<open>Writing a non-number to a static trait\<close>

text \<open>
  C9. The claim is that on a Static trait a non-numeric write to \<^verbatim>\<open>mod\<close> or to
  \<^verbatim>\<open>base\<close> is ignored. The setter of \<^verbatim>\<open>mod\<close> ignores it. StaticTrait defines no
  property \<^verbatim>\<open>base\<close>, so \<^verbatim>\<open>Trait.__setattr__\<close> stores whatever is written: on the trait
  with base 10 and mod 2, \<^verbatim>\<open>base = "ten"\<close> replaces the 10, and \<^verbatim>\<open>value\<close>, which was
  12, raises TypeError.
\<close>

theorem static_base_write_unguarded:
  "trait_setattr StaticTrait now ''base'' v d = (Inr (), d(''base'' \<mapsto> v))
   \<and> trait_setattr StaticTrait 0 ''mod'' (VStr ''two'') strength = (Inr (), strength)
   \<and> trait_setattr StaticTrait 0 ''base'' (VStr ''ten'') strength =
       (Inr (), strength(''base'' \<mapsto> VStr ''ten''))
   \<and> static_value strength = Inr (VNum 12)
   \<and> static_value (strength(''base'' \<mapsto> VStr ''ten'')) = Inl TypeError"
proof (intro conjI)
  show "trait_setattr StaticTrait now ''base'' v d = (Inr (), d(''base'' \<mapsto> v))"
    by (simp add: attr_defs class_defs)
  show "trait_setattr StaticTrait 0 ''mod'' (VStr ''two'') strength = (Inr (), strength)"
    by (simp add: attr_defs class_defs set_mod_def)
  show "trait_setattr StaticTrait 0 ''base'' (VStr ''ten'') strength =
      (Inr (), strength(''base'' \<mapsto> VStr ''ten''))"
    by (simp add: attr_defs class_defs)
  show "static_value strength = Inr (VNum 12)"
    by (simp add: static_value_def get_mod_def op_defs strength_def)
  show "static_value (strength(''base'' \<mapsto> VStr ''ten'')) = Inl TypeError"
    by (simp add: static_value_def get_mod_def op_defs strength_def)
qed

section \<open>The rate target is clamped\<close>

text \<open>
  C10. The claim is that the setter of \<^verbatim>\<open>ratetarget\<close> stores the maximum for a number
  at or above it, and that a stored rate target never lies outside the bounds. On the
  counter stored with \<^verbatim>\<open>min=20, max=5\<close> the setter stores 20 for the number 10, above
  the maximum. On the counter with bounds 0 and 100 the rate target 90 stays when
  \<^verbatim>\<open>max = 50\<close> is written afterwards. And \<^verbatim>\<open>add(max=100, ratetarget=150)\<close> stores the
  rate target 150 as given.
\<close>

theorem ratetarget_left_outside_bounds:
  "set_ratetarget Counter 0 inverted (VNum 10) = (Inr (), inverted(''ratetarget'' \<mapsto> VNum 20))
   \<and> inverted ''max'' = Some (VNum 5)
   \<and> set_ratetarget Counter 0 skill (VNum 90) = (Inr (), skill(''ratetarget'' \<mapsto> VNum 90))
   \<and> set_max Counter (skill(''ratetarget'' \<mapsto> VNum 90)) (VNum 50) =
       Inr (skill(''ratetarget'' \<mapsto> VNum 90, ''max'' \<mapsto> VNum 50))
   \<and> add trait_classes 0 no_traits ''skill'' (Some ''Skill'') ''counter'' True eager_kwargs =
       (Inr (), \<lparr>trait_data = [''skill'' \<mapsto> eager], cache = Map.empty\<rparr>)
   \<and> eager ''max'' = Some (VNum 100) \<and> eager ''ratetarget'' = Some (VNum 150)"
proof (intro conjI)
  show "set_ratetarget Counter 0 inverted (VNum 10) =
      (Inr (), inverted(''ratetarget'' \<mapsto> VNum 20))"
    by (simp add: set_ratetarget_def op_defs counter_defs inverted_def)
  show "inverted ''max'' = Some (VNum 5)"
    by (simp add: inverted_def)
  show "set_ratetarget Counter 0 skill (VNum 90) = (Inr (), skill(''ratetarget'' \<mapsto> VNum 90))"
    by (simp add: set_ratetarget_def op_defs counter_defs skill_def)
  show "set_max Counter (skill(''ratetarget'' \<mapsto> VNum 90)) (VNum 50) =
       Inr (skill(''ratetarget'' \<mapsto> VNum 90, ''max'' \<mapsto> VNum 50))"
    by (simp add: set_max_def op_defs counter_defs skill_def)
  show "add trait_classes 0 no_traits ''skill'' (Some ''Skill'') ''counter'' True eager_kwargs =
       (Inr (), \<lparr>trait_data = [''skill'' \<mapsto> eager], cache = Map.empty\<rparr>)"
    by (simp add: handler_defs class_defs op_defs no_traits_def eager_kwargs_def eager_def
          fun_eq_iff)
  show "eager ''max'' = Some (VNum 100)" and "eager ''ratetarget'' = Some (VNum 150)"
    by (simp_all add: eager_def)
qed

text \<open>
  C10, amended. Setting \<^verbatim>\<open>ratetarget\<close> of a Counter to a number stores what
  \<^verbatim>\<open>_enforce_boundaries\<close> returns for it, which is what the setter of \<^verbatim>\<open>current\<close>
  stores for the same number: a set minimum for a number at or below it, otherwise a set
  maximum for a number at or above it, otherwise the number itself. When the bounds, where
  both are set, satisfy \<open>min \<le> max\<close>, the rate target lies within the set bounds right
  after the write, and a number at or above the maximum stores the maximum.
\<close>

theorem set_ratetarget_clamps:
  assumes "fields Counter d b m mn mx r rt lu"
    and "d ''current'' = map_option VNum cur"
  shows "\<exists>d' e. set_ratetarget Counter now d (VNum v) = (Inr (), d')
           \<and> d' ''ratetarget'' = Some (VNum e)
           \<and> enforce_boundaries Counter d (VNum v) = Inr (VNum e)
           \<and> (\<exists>d''. set_current Counter now d (VNum v) = Inr d'' \<and> d'' ''current'' = Some (VNum e))
           \<and> (\<forall>lo. mn = Some lo \<longrightarrow> v \<le> lo \<longrightarrow> e = lo)
           \<and> (\<forall>hi. mx = Some hi \<longrightarrow> hi \<le> v \<longrightarrow> (\<forall>lo. mn = Some lo \<longrightarrow> lo < v) \<longrightarrow> e = hi)
           \<and> ((\<forall>lo. mn = Some lo \<longrightarrow> lo < v) \<and> (\<forall>hi. mx = Some hi \<longrightarrow> v < hi) \<longrightarrow> e = v)
           \<and> ((\<forall>lo hi. mn = Some lo \<longrightarrow> mx = Some hi \<longrightarrow> lo \<le> hi)
                \<longrightarrow> (\<forall>lo. mn = Some lo \<longrightarrow> lo \<le> e) \<and> (\<forall>hi. mx = Some hi \<longrightarrow> e \<le> hi)
                    \<and> (\<forall>hi. mx = Some hi \<longrightarrow> hi \<le> v \<longrightarrow> e = hi))"
proof -
  let ?e = "clamp mn mx v"
  let ?d1 = "d(''ratetarget'' \<mapsto> VNum ?e)"
  have e: "enforce_boundaries Counter d (VNum v) = Inr (VNum ?e)"
    using enforce_boundaries_fields [OF assms(1), of v] by (simp add: lower_def upper_def)
  have f1: "fields Counter ?d1 b m mn mx r (Some ?e) lu"
    by (rule fields_ratetarget [OF assms(1)])
  have c1: "?d1 ''current'' = map_option VNum cur"
    using assms(2) by simp
  from get_value_total [OF f1 c1, of now]
  obtain x d2 lu2 where g: "get_value Counter now ?d1 = (Inr (VNum x), d2)"
    and f2: "fields Counter d2 b m mn mx r (Some ?e) lu2"
    by blast
  let ?d3 = "if r \<noteq> 0 \<and> lu2 = None
                \<and> \<not> at_or_below (lower Counter mn) x
                \<and> \<not> at_or_above (upper Counter b m mx) x
                \<and> \<not> reached r (Some ?e) x
             then d2(''last_update'' \<mapsto> VNum now) else d2"
  have t: "check_and_start_timer Counter now d2 (VNum x) = Inr ?d3"
    by (rule check_and_start_timer_fields [OF f2])
  have s: "set_ratetarget Counter now d (VNum v) = (Inr (), ?d3)"
    by (simp add: set_ratetarget_def e g t)
  from f2 have "d2 ''ratetarget'' = Some (VNum ?e)" by (simp add: fields_def)
  then have r3: "?d3 ''ratetarget'' = Some (VNum ?e)" by simp
  let ?d4 = "if r \<noteq> 0 \<and> lu = None
                \<and> \<not> at_or_below (lower Counter mn) ?e
                \<and> \<not> at_or_above (upper Counter b m mx) ?e
                \<and> \<not> reached r rt ?e
             then d(''last_update'' \<mapsto> VNum now) else d"
  have "set_current Counter now d (VNum v) = Inr (?d4(''current'' \<mapsto> VNum ?e))"
    using check_and_start_timer_fields [OF assms(1), of now ?e]
    by (simp add: set_current_def e bindE_def)
  then have sc: "\<exists>d''. set_current Counter now d (VNum v) = Inr d'' \<and> d'' ''current'' = Some (VNum ?e)"
    by simp
  have lo: "\<forall>lo. mn = Some lo \<longrightarrow> v \<le> lo \<longrightarrow> ?e = lo"
    by (auto simp: bound_defs)
  have hi: "\<forall>hi. mx = Some hi \<longrightarrow> hi \<le> v \<longrightarrow> (\<forall>lo. mn = Some lo \<longrightarrow> lo < v) \<longrightarrow> ?e = hi"
    by (cases mn) (auto simp: bound_defs)
  have mid: "(\<forall>lo. mn = Some lo \<longrightarrow> lo < v) \<and> (\<forall>hi. mx = Some hi \<longrightarrow> v < hi) \<longrightarrow> ?e = v"
    by (cases mn; cases mx) (auto simp: bound_defs)
  have inv: "(\<forall>lo hi. mn = Some lo \<longrightarrow> mx = Some hi \<longrightarrow> lo \<le> hi)
                \<longrightarrow> (\<forall>lo. mn = Some lo \<longrightarrow> lo \<le> ?e) \<and> (\<forall>hi. mx = Some hi \<longrightarrow> ?e \<le> hi)
                    \<and> (\<forall>hi. mx = Some hi \<longrightarrow> hi \<le> v \<longrightarrow> ?e = hi)"
    by (cases mn; cases mx) (auto simp: bound_defs)
  from s r3 e sc lo hi mid inv show ?thesis by blast
qed

theorem set_ratetarget_clamps_witness:
  "fields Counter skill 10 1 (Some 0) (Some 100) 0 None None
   \<and> skill ''current'' = None
   \<and> (\<exists>d'. set_ratetarget Counter 0 skill (VNum 150) = (Inr (), d')
          \<and> d' ''ratetarget'' = Some (VNum 100))"
proof -
  have c: "skill ''current'' = map_option VNum None" by (simp add: skill_def)
  from set_ratetarget_clamps [OF fields_skill c, of 0 150]
  have "\<exists>d'. set_ratetarget Counter 0 skill (VNum 150) = (Inr (), d')
          \<and> d' ''ratetarget'' = Some (VNum 100)"
    by auto
  with c fields_skill show ?thesis by simp
qed

end
